theory Spec2Isabelle
  imports Complex_Main "HOL-Library.Stream"
begin

section \<open>Python values used by the three modules\<close>

text \<open>
  The three modules (\<^verbatim>\<open>ex0/space_station.py\<close>, \<^verbatim>\<open>ex1/alien_contact.py\<close>,
  \<^verbatim>\<open>ex2/space_crew.py\<close>) declare pydantic (v2) models. A Python \<^verbatim>\<open>str\<close> is a
  \<open>string\<close>, one \<open>char\<close> per code point; an \<^verbatim>\<open>int\<close> is an \<open>int\<close>; a \<^verbatim>\<open>datetime\<close> is a
  point on the time line, here an \<open>int\<close>. A Python \<^verbatim>\<open>float\<close> is either a finite double,
  which is a rational number, or one of the three special values. Every float comparison
  of the source is against a literal that is exactly representable (0.0, 1.0, 7.0, 10.0,
  100.0, 10000.0), so comparing the rational values is what the hardware does.
\<close>

type_synonym datetime = int

datatype pyfloat = Finite rat | PosInf | NegInf | NaN

text \<open>\<^verbatim>\<open>x >= b\<close>, \<^verbatim>\<open>x <= b\<close> and \<^verbatim>\<open>x > b\<close> for a float \<open>x\<close> and a finite bound \<open>b\<close>;
  every comparison with NaN is false.\<close>

fun float_ge :: "pyfloat \<Rightarrow> rat \<Rightarrow> bool" where
  "float_ge (Finite x) b = (b \<le> x)"
| "float_ge PosInf b = True"
| "float_ge NegInf b = False"
| "float_ge NaN b = False"

fun float_le :: "pyfloat \<Rightarrow> rat \<Rightarrow> bool" where
  "float_le (Finite x) b = (x \<le> b)"
| "float_le PosInf b = False"
| "float_le NegInf b = True"
| "float_le NaN b = False"

fun float_gt :: "pyfloat \<Rightarrow> rat \<Rightarrow> bool" where
  "float_gt (Finite x) b = (b < x)"
| "float_gt PosInf b = True"
| "float_gt NegInf b = False"
| "float_gt NaN b = False"

text \<open>Truthiness of an \<^verbatim>\<open>Optional[str]\<close>: \<^verbatim>\<open>None\<close> and the empty string are falsy.\<close>

fun truthy :: "string option \<Rightarrow> bool" where
  "truthy None = False"
| "truthy (Some s) = (s \<noteq> [])"

text \<open>
  An argument of a constructor call. Before any constraint is looked at, pydantic takes
  the argument for a value of the field's type: a string for \<^verbatim>\<open>str\<close>, a number for
  \<^verbatim>\<open>int\<close> or \<^verbatim>\<open>float\<close>, a member for an enum, a point in time for \<^verbatim>\<open>datetime\<close>, a
  list for \<^verbatim>\<open>List\<close>. \<open>Given v\<close> is an argument that it takes for the value \<open>v\<close>,
  \<open>Mistyped\<close> is an argument that it refuses (such as a word for an \<^verbatim>\<open>int\<close>, or a
  string that names no member of the enum), and \<open>Absent\<close> is an argument that is not
  passed. Which Python values are taken for which value is not modelled.
\<close>

datatype 'a arg = Absent | Given 'a | Mistyped

text \<open>
  The wall clock \<^verbatim>\<open>datetime.now\<close> is a process-wide function without arguments. The
  world is the sequence of readings it will return; a call takes the first one.
\<close>

type_synonym world = "datetime stream"

definition datetime_now :: "world \<Rightarrow> datetime \<times> world" where
  "datetime_now w = (shd w, stl w)"

section \<open>Errors\<close>

text \<open>
  The text of a \<^verbatim>\<open>ValueError\<close> is a list of parts: literal text, or the
  interpolation \<^verbatim>\<open>{inactive}\<close> of a list of strings in an f-string. How \<^verbatim>\<open>repr\<close>
  quotes the list is not modelled; the list itself is kept.
\<close>

datatype fpart = Lit string | ReprStrList "string list"

type_synonym message = "fpart list"

text \<open>A pydantic error has a location (field names and list indices, outermost first)
  and a type. \<open>Type_error\<close> stands for the errors of arguments that are not taken for a
  value of the field's type (\<^verbatim>\<open>int_parsing\<close>, \<^verbatim>\<open>string_type\<close>, \<^verbatim>\<open>enum\<close>,
  \<^verbatim>\<open>datetime_type\<close>, \<^verbatim>\<open>list_type\<close>, \<^verbatim>\<open>model_type\<close> and so on).\<close>

datatype loc_item = Key string | Index nat

datatype error_type =
    Missing
  | Type_error
  | String_too_short
  | String_too_long
  | Greater_than_equal
  | Less_than_equal
  | Too_short
  | Too_long
  | Frozen_instance
  | Value_error message

datatype line_error = LineError (loc: "loc_item list") (etype: error_type)

datatype exn =
    ValidationError "line_error list"
  | ValueError message
  | ZeroDivisionError

definition with_outer_location :: "loc_item \<Rightarrow> line_error \<Rightarrow> line_error" where
  "with_outer_location l e = LineError (l # loc e) (etype e)"

fun errs :: "line_error list + 'a \<Rightarrow> line_error list" where
  "errs (Inl es) = es"
| "errs (Inr x) = []"

section \<open>The validators of pydantic that the declarations select\<close>

text \<open>
  The declarations \<^verbatim>\<open>Field(..., min_length=3, max_length=10)\<close> and the like are run by
  pydantic's validators, here on the values that the arguments were taken for.

  A string is checked against \<^verbatim>\<open>min_length\<close>, then \<^verbatim>\<open>max_length\<close>; a number
  against \<^verbatim>\<open>le\<close>, then \<^verbatim>\<open>ge\<close>. The first failing check is the field's error, so
  a field of these types has at most one error. With the bounds of the declarations only
  a NaN fails both checks of a field, and no statement below depends on which of the two
  errors it gets.
\<close>

definition str_validator :: "nat option \<Rightarrow> nat option \<Rightarrow> string \<Rightarrow> line_error list + string" where
  "str_validator min_length max_length s =
     (if (case min_length of Some n \<Rightarrow> length s < n | None \<Rightarrow> False)
        then Inl [LineError [] String_too_short]
      else if (case max_length of Some n \<Rightarrow> n < length s | None \<Rightarrow> False)
        then Inl [LineError [] String_too_long]
      else Inr s)"

definition int_validator :: "int \<Rightarrow> int \<Rightarrow> int \<Rightarrow> line_error list + int" where
  "int_validator ge le i =
     (if \<not> i \<le> le then Inl [LineError [] Less_than_equal]
      else if \<not> ge \<le> i then Inl [LineError [] Greater_than_equal]
      else Inr i)"

definition float_validator :: "rat \<Rightarrow> rat \<Rightarrow> pyfloat \<Rightarrow> line_error list + pyfloat" where
  "float_validator ge le x =
     (if \<not> float_le x le then Inl [LineError [] Less_than_equal]
      else if \<not> float_ge x ge then Inl [LineError [] Greater_than_equal]
      else Inr x)"

text \<open>A field without constraints (\<^verbatim>\<open>bool\<close>, an enum, \<^verbatim>\<open>datetime\<close>, a plain \<^verbatim>\<open>str\<close>).\<close>

definition any_validator :: "'a \<Rightarrow> line_error list + 'a" where
  "any_validator x = Inr x"

text \<open>\<^verbatim>\<open>Optional[T]\<close>: \<^verbatim>\<open>None\<close> is accepted as it is, any other value goes to the
  validator of \<open>T\<close>.\<close>

definition nullable :: "('a \<Rightarrow> line_error list + 'a) \<Rightarrow> 'a option \<Rightarrow> line_error list + 'a option" where
  "nullable v x =
     (case x of None \<Rightarrow> Inr None
      | Some y \<Rightarrow> (case v y of Inl es \<Rightarrow> Inl es | Inr z \<Rightarrow> Inr (Some z)))"

text \<open>
  The list validator walks the items with their index. Every item, valid or not, is
  counted, and the walk stops with the single error \<open>Too_long\<close> as soon as the count
  exceeds \<^verbatim>\<open>max_length\<close>: the errors of the items seen so far are dropped. Otherwise the
  errors of the items are returned with the index put in front of their location, and
  \<^verbatim>\<open>min_length\<close> is checked only when no item failed.
\<close>

fun validate_iter_to_vec ::
  "nat \<Rightarrow> ('a \<Rightarrow> line_error list + 'b) \<Rightarrow> nat \<Rightarrow> 'a list \<Rightarrow> 'b list \<Rightarrow> line_error list
     \<Rightarrow> line_error list + 'b list" where
  "validate_iter_to_vec max_length v index [] output errors =
     (if errors = [] then Inr output else Inl errors)"
| "validate_iter_to_vec max_length v index (item # rest) output errors =
     (if max_length < index + 1 then Inl [LineError [] Too_long]
      else case v item of
          Inr x \<Rightarrow> validate_iter_to_vec max_length v (index + 1) rest (output @ [x]) errors
        | Inl es \<Rightarrow> validate_iter_to_vec max_length v (index + 1) rest output
                     (errors @ map (with_outer_location (Index index)) es))"

definition list_validator ::
  "nat \<Rightarrow> nat \<Rightarrow> ('a \<Rightarrow> line_error list + 'b) \<Rightarrow> 'a list \<Rightarrow> line_error list + 'b list" where
  "list_validator min_length max_length v xs =
     (case validate_iter_to_vec max_length v 0 xs [] [] of
        Inl es \<Rightarrow> Inl es
      | Inr output \<Rightarrow>
          if length output < min_length then Inl [LineError [] Too_short] else Inr output)"

text \<open>
  A model field. A required field (\<^verbatim>\<open>Field(...)\<close>, \<^verbatim>\<open>Field()\<close>) that is absent gives
  the error \<open>Missing\<close>; a field with a default that is absent takes the default, which is
  not validated. An argument that is not taken for a value of the field's type gives
  the error \<open>Type_error\<close>, and the constraints of the field are not looked at. The errors
  of a field get the field's name in front of their location.
\<close>

definition required ::
  "string \<Rightarrow> ('a \<Rightarrow> line_error list + 'b) \<Rightarrow> 'a arg \<Rightarrow> line_error list + 'b" where
  "required fname v x =
     (case x of
        Absent \<Rightarrow> Inl [LineError [Key fname] Missing]
      | Mistyped \<Rightarrow> Inl [LineError [Key fname] Type_error]
      | Given y \<Rightarrow> (case v y of Inl es \<Rightarrow> Inl (map (with_outer_location (Key fname)) es)
                              | Inr z \<Rightarrow> Inr z))"

definition with_default ::
  "string \<Rightarrow> 'b \<Rightarrow> ('a \<Rightarrow> line_error list + 'b) \<Rightarrow> 'a arg \<Rightarrow> line_error list + 'b" where
  "with_default fname d v x =
     (case x of
        Absent \<Rightarrow> Inr d
      | Mistyped \<Rightarrow> Inl [LineError [Key fname] Type_error]
      | Given y \<Rightarrow> (case v y of Inl es \<Rightarrow> Inl (map (with_outer_location (Key fname)) es)
                              | Inr z \<Rightarrow> Inr z))"

text \<open>
  \<^verbatim>\<open>default_factory=datetime.now\<close>: when the field is absent, and only then, the
  factory is called and the clock read, and the field is treated as given with the
  reading. The field phase of a model below takes the timestamp argument after this
  step.
\<close>

definition default_factory_now :: "datetime arg \<Rightarrow> world \<Rightarrow> datetime arg \<times> world" where
  "default_factory_now x w =
     (case x of
        Absent \<Rightarrow> (case datetime_now w of (t, w') \<Rightarrow> (Given t, w'))
      | Given t \<Rightarrow> (Given t, w)
      | Mistyped \<Rightarrow> (Mistyped, w))"

text \<open>
  \<^verbatim>\<open>@model_validator(mode="after")\<close>: the method runs on the constructed model when the
  fields gave no error. A \<^verbatim>\<open>ValueError\<close> it raises becomes the single error of a
  \<^verbatim>\<open>ValidationError\<close>, with an empty location; any other exception passes through.
\<close>

definition model_validator_after ::
  "('a \<Rightarrow> exn + 'a) \<Rightarrow> line_error list + 'a \<Rightarrow> exn + 'a" where
  "model_validator_after f r =
     (case r of
        Inl es \<Rightarrow> Inl (ValidationError es)
      | Inr self \<Rightarrow>
          (case f self of
             Inl (ValueError m) \<Rightarrow> Inl (ValidationError [LineError [] (Value_error m)])
           | Inl e \<Rightarrow> Inl e
           | Inr self' \<Rightarrow> Inr self'))"

text \<open>A model without a model validator.\<close>

definition no_model_validator :: "line_error list + 'a \<Rightarrow> exn + 'a" where
  "no_model_validator r = (case r of Inl es \<Rightarrow> Inl (ValidationError es) | Inr self \<Rightarrow> Inr self)"

section \<open>ex0: SpaceStation\<close>

record SpaceStation =
  station_id :: string
  name :: string
  crew_size :: int
  power_level :: pyfloat
  oxygen_level :: pyfloat
  last_maintenance :: datetime
  is_operational :: bool
  notes' :: "string option"

text \<open>The keyword arguments of \<^verbatim>\<open>SpaceStation(...)\<close>.\<close>

record SpaceStation_kwargs =
  kw_station_id :: "string arg"
  kw_name :: "string arg"
  kw_crew_size :: "int arg"
  kw_power_level :: "pyfloat arg"
  kw_oxygen_level :: "pyfloat arg"
  kw_last_maintenance :: "datetime arg"
  kw_is_operational :: "bool arg"
  kw_notes :: "string option arg"

definition SpaceStation_fields ::
  "datetime arg \<Rightarrow> SpaceStation_kwargs \<Rightarrow> line_error list + SpaceStation" where
  "SpaceStation_fields ts kw =
     (let f1 = required ''station_id'' (str_validator (Some 3) (Some 10)) (kw_station_id kw);
          f2 = required ''name'' (str_validator (Some 1) (Some 50)) (kw_name kw);
          f3 = required ''crew_size'' (int_validator 1 20) (kw_crew_size kw);
          f4 = required ''power_level'' (float_validator 0 100) (kw_power_level kw);
          f5 = required ''oxygen_level'' (float_validator 0 100) (kw_oxygen_level kw);
          f6 = required ''last_maintenance'' any_validator ts;
          f7 = with_default ''is_operational'' True any_validator (kw_is_operational kw);
          f8 = with_default ''notes'' None (nullable (str_validator None (Some 200))) (kw_notes kw)
      in case (f1, f2, f3, f4, f5, f6, f7, f8) of
           (Inr a, Inr b, Inr c, Inr d, Inr e, Inr f, Inr g, Inr h) \<Rightarrow>
             Inr \<lparr>station_id = a, name = b, crew_size = c, power_level = d, oxygen_level = e,
                  last_maintenance = f, is_operational = g, notes' = h\<rparr>
         | _ \<Rightarrow> Inl (errs f1 @ errs f2 @ errs f3 @ errs f4 @ errs f5 @ errs f6 @ errs f7
                     @ errs f8))"

definition SpaceStation_new ::
  "SpaceStation_kwargs \<Rightarrow> world \<Rightarrow> (exn + SpaceStation) \<times> world" where
  "SpaceStation_new kw w =
     (case default_factory_now (kw_last_maintenance kw) w of
        (t, w') \<Rightarrow> (no_model_validator (SpaceStation_fields t kw), w'))"

section \<open>ex1: AlienContact\<close>

datatype ContactType = radio | visual | physical | telepathic

record AlienContact =
  contact_id :: string
  timestamp :: datetime
  location :: string
  contact_type :: ContactType
  signal_strength :: pyfloat
  duration_minutes :: int
  witness_count :: int
  message_received :: "string option"
  is_verified :: bool

record AlienContact_kwargs =
  kw_contact_id :: "string arg"
  kw_timestamp :: "datetime arg"
  kw_location :: "string arg"
  kw_contact_type :: "ContactType arg"
  kw_signal_strength :: "pyfloat arg"
  kw_duration_minutes :: "int arg"
  kw_witness_count :: "int arg"
  kw_message_received :: "string option arg"
  kw_is_verified :: "bool arg"

definition AlienContact_fields ::
  "datetime arg \<Rightarrow> AlienContact_kwargs \<Rightarrow> line_error list + AlienContact" where
  "AlienContact_fields ts kw =
     (let f1 = required ''contact_id'' (str_validator (Some 5) (Some 15)) (kw_contact_id kw);
          f2 = required ''timestamp'' any_validator ts;
          f3 = required ''location'' (str_validator (Some 3) (Some 100)) (kw_location kw);
          f4 = required ''contact_type'' any_validator (kw_contact_type kw);
          f5 = required ''signal_strength'' (float_validator 0 10) (kw_signal_strength kw);
          f6 = required ''duration_minutes'' (int_validator 1 1440) (kw_duration_minutes kw);
          f7 = required ''witness_count'' (int_validator 1 100) (kw_witness_count kw);
          f8 = with_default ''message_received'' None (nullable (str_validator None (Some 500)))
                 (kw_message_received kw);
          f9 = with_default ''is_verified'' False any_validator (kw_is_verified kw)
      in case (f1, f2, f3, f4, f5, f6, f7, f8, f9) of
           (Inr a, Inr b, Inr c, Inr d, Inr e, Inr f, Inr g, Inr h, Inr i) \<Rightarrow>
             Inr \<lparr>contact_id = a, timestamp = b, location = c, contact_type = d,
                  signal_strength = e, duration_minutes = f, witness_count = g,
                  message_received = h, is_verified = i\<rparr>
         | _ \<Rightarrow> Inl (errs f1 @ errs f2 @ errs f3 @ errs f4 @ errs f5 @ errs f6 @ errs f7
                     @ errs f8 @ errs f9))"

text \<open>\<^verbatim>\<open>validate_contact\<close>: four checks in sequence, each raising \<^verbatim>\<open>ValueError\<close>.
  \<^verbatim>\<open>self.contact_id[:2]\<close> is \<open>take 2\<close>; \<^verbatim>\<open>not self.message_received\<close> is the negated
  truthiness of an optional string.\<close>

definition validate_contact :: "AlienContact \<Rightarrow> exn + AlienContact" where
  "validate_contact self =
     (if take 2 (contact_id self) \<noteq> ''AC''
        then Inl (ValueError [Lit ''Contact ID must start with AC''])
      else if contact_type self = physical \<and> \<not> is_verified self
        then Inl (ValueError [Lit ''Physical contact reports must be verified''])
      else if contact_type self = telepathic \<and> witness_count self < 3
        then Inl (ValueError [Lit ''Telepathic contact requires at least 3 witnesses''])
      else if float_gt (signal_strength self) 7 \<and> \<not> truthy (message_received self)
        then Inl (ValueError [Lit ''Strong signals (> 7.0) should include received messages''])
      else Inr self)"

definition AlienContact_new ::
  "AlienContact_kwargs \<Rightarrow> world \<Rightarrow> (exn + AlienContact) \<times> world" where
  "AlienContact_new kw w =
     (case default_factory_now (kw_timestamp kw) w of
        (t, w') \<Rightarrow> (model_validator_after validate_contact (AlienContact_fields t kw), w'))"

section \<open>ex2: CrewMember and SpaceMission\<close>

datatype Rank = cadet | officer | lieutenant | captain | commander

record CrewMember =
  member_id :: string
  name :: string
  rank :: Rank
  age :: int
  specialization :: string
  years_experience :: int
  is_active :: bool

record CrewMember_kwargs =
  kw_member_id :: "string arg"
  kw_name :: "string arg"
  kw_rank :: "Rank arg"
  kw_age :: "int arg"
  kw_specialization :: "string arg"
  kw_years_experience :: "int arg"
  kw_is_active :: "bool arg"

definition CrewMember_fields :: "CrewMember_kwargs \<Rightarrow> line_error list + CrewMember" where
  "CrewMember_fields kw =
     (let f1 = required ''member_id'' (str_validator (Some 3) (Some 10)) (kw_member_id kw);
          f2 = required ''name'' (str_validator (Some 2) (Some 50)) (kw_name kw);
          f3 = required ''rank'' any_validator (kw_rank kw);
          f4 = required ''age'' (int_validator 18 80) (kw_age kw);
          f5 = required ''specialization'' (str_validator (Some 3) (Some 30)) (kw_specialization kw);
          f6 = required ''years_experience'' (int_validator 0 50) (kw_years_experience kw);
          f7 = with_default ''is_active'' True any_validator (kw_is_active kw)
      in case (f1, f2, f3, f4, f5, f6, f7) of
           (Inr a, Inr b, Inr c, Inr d, Inr e, Inr f, Inr g) \<Rightarrow>
             Inr \<lparr>member_id = a, name = b, rank = c, age = d, specialization = e,
                  years_experience = f, is_active = g\<rparr>
         | _ \<Rightarrow> Inl (errs f1 @ errs f2 @ errs f3 @ errs f4 @ errs f5 @ errs f6 @ errs f7))"

definition CrewMember_new :: "CrewMember_kwargs \<Rightarrow> exn + CrewMember" where
  "CrewMember_new kw = no_model_validator (CrewMember_fields kw)"

text \<open>
  A value given where a \<^verbatim>\<open>CrewMember\<close> is expected, as an item of \<^verbatim>\<open>crew\<close>. A mapping
  is validated with the fields of the class. An object that already is a
  \<^verbatim>\<open>CrewMember\<close> is taken as it is, whatever its attributes hold: no class sets
  \<^verbatim>\<open>revalidate_instances\<close>, and pydantic's default is not to validate an instance again.
  Any other value is refused.
\<close>

datatype CrewMember_input = Dict CrewMember_kwargs | Instance CrewMember | Mistyped_item

fun CrewMember_validator :: "CrewMember_input \<Rightarrow> line_error list + CrewMember" where
  "CrewMember_validator (Dict kw) = CrewMember_fields kw"
| "CrewMember_validator (Instance m) = Inr m"
| "CrewMember_validator Mistyped_item = Inl [LineError [] Type_error]"

record SpaceMission =
  mission_id :: string
  mission_name :: string
  destination :: string
  launch_date :: datetime
  duration_days :: int
  crew :: "CrewMember list"
  mission_status :: string
  budget_millions :: pyfloat

record SpaceMission_kwargs =
  kw_mission_id :: "string arg"
  kw_mission_name :: "string arg"
  kw_destination :: "string arg"
  kw_launch_date :: "datetime arg"
  kw_duration_days :: "int arg"
  kw_crew :: "CrewMember_input list arg"
  kw_mission_status :: "string arg"
  kw_budget_millions :: "pyfloat arg"

definition SpaceMission_fields ::
  "datetime arg \<Rightarrow> SpaceMission_kwargs \<Rightarrow> line_error list + SpaceMission" where
  "SpaceMission_fields ts kw =
     (let f1 = required ''mission_id'' (str_validator (Some 5) (Some 15)) (kw_mission_id kw);
          f2 = required ''mission_name'' (str_validator (Some 3) (Some 100)) (kw_mission_name kw);
          f3 = required ''destination'' (str_validator (Some 3) (Some 50)) (kw_destination kw);
          f4 = required ''launch_date'' any_validator ts;
          f5 = required ''duration_days'' (int_validator 1 3650) (kw_duration_days kw);
          f6 = required ''crew'' (list_validator 1 12 CrewMember_validator) (kw_crew kw);
          f7 = with_default ''mission_status'' ''planned'' any_validator (kw_mission_status kw);
          f8 = required ''budget_millions'' (float_validator 1 10000) (kw_budget_millions kw)
      in case (f1, f2, f3, f4, f5, f6, f7, f8) of
           (Inr a, Inr b, Inr c, Inr d, Inr e, Inr f, Inr g, Inr h) \<Rightarrow>
             Inr \<lparr>mission_id = a, mission_name = b, destination = c, launch_date = d,
                  duration_days = e, crew = f, mission_status = g, budget_millions = h\<rparr>
         | _ \<Rightarrow> Inl (errs f1 @ errs f2 @ errs f3 @ errs f4 @ errs f5 @ errs f6 @ errs f7
                     @ errs f8))"

text \<open>
  \<^verbatim>\<open>validate_mission\<close>. \<^verbatim>\<open>self.mission_id.startswith("M")\<close> is \<open>take 1\<close>; the
  first message ends with a quote character, written \<open>CHR 0x27\<close>. The quotient
  \<^verbatim>\<open>experienced / len(self.crew)\<close> is Python's true division of two integers: it
  raises \<^verbatim>\<open>ZeroDivisionError\<close> for an empty crew, and otherwise is the correctly
  rounded quotient, which is below 0.5 exactly when the rational quotient is (both
  numbers are list lengths, far below \<open>2 ^ 53\<close>).
\<close>

definition senior_ranks :: "Rank set" where
  "senior_ranks = {commander, captain}"

definition validate_mission :: "SpaceMission \<Rightarrow> exn + SpaceMission" where
  "validate_mission self =
     (if take 1 (mission_id self) \<noteq> ''M''
        then Inl (ValueError [Lit (''Mission ID must start with 'M'' @ [CHR 0x27])])
      else
        let has_senior = list_ex (\<lambda>m. rank m \<in> senior_ranks) (crew self) in
        if \<not> has_senior
          then Inl (ValueError [Lit ''Mission must have at least one Commander or Captain''])
        else
          let experienced = length (filter (\<lambda>m. 4 < years_experience m) (crew self)) in
          if 365 < duration_days self \<and> length (crew self) = 0
            then Inl ZeroDivisionError
          else if 365 < duration_days self
                  \<and> rat_of_nat experienced / rat_of_nat (length (crew self)) < 1 / 2
            then Inl (ValueError
                   [Lit ''For long missions (> 365 days) need 50% experienced crew (5+ years)''])
          else
            let inactive = map name (filter (\<lambda>m. \<not> is_active m) (crew self)) in
            if inactive \<noteq> []
              then Inl (ValueError
                     [Lit ''All crew members must be active. Inactive members: '',
                      ReprStrList inactive])
            else Inr self)"

definition SpaceMission_new ::
  "SpaceMission_kwargs \<Rightarrow> world \<Rightarrow> (exn + SpaceMission) \<times> world" where
  "SpaceMission_new kw w =
     (case default_factory_now (kw_launch_date kw) w of
        (t, w') \<Rightarrow> (model_validator_after validate_mission (SpaceMission_fields t kw), w'))"

section \<open>Assignment to an attribute\<close>

text \<open>
  An assignment \<^verbatim>\<open>obj.attr = value\<close> on a pydantic model goes through
  \<^verbatim>\<open>BaseModel.__setattr__\<close>, which looks at the \<^verbatim>\<open>model_config\<close> of the class: the
  assignment is refused when the configuration has \<^verbatim>\<open>frozen=True\<close>, validated when it
  has \<^verbatim>\<open>validate_assignment=True\<close>, and otherwise the value is stored as it is. Both
  settings are false unless the class sets them. The body of each of the four classes
  consists of field declarations and, for two of them, a model validator: none assigns
  \<^verbatim>\<open>model_config\<close> and no field is declared with \<^verbatim>\<open>frozen=True\<close>.
\<close>

record ConfigDict =
  frozen :: bool
  validate_assignment :: bool

definition pydantic_defaults :: ConfigDict where
  "pydantic_defaults = \<lparr>frozen = False, validate_assignment = False\<rparr>"

text \<open>The \<^verbatim>\<open>model_config\<close> that the class body assigns, if it assigns one.\<close>

definition SpaceStation_model_config :: "ConfigDict option" where
  "SpaceStation_model_config = None"

definition AlienContact_model_config :: "ConfigDict option" where
  "AlienContact_model_config = None"

definition CrewMember_model_config :: "ConfigDict option" where
  "CrewMember_model_config = None"

definition SpaceMission_model_config :: "ConfigDict option" where
  "SpaceMission_model_config = None"

definition config_of :: "ConfigDict option \<Rightarrow> ConfigDict" where
  "config_of c = (case c of None \<Rightarrow> pydantic_defaults | Some d \<Rightarrow> d)"

text \<open>\<^verbatim>\<open>__setattr__\<close>, given the configuration of the class, the name of the attribute,
  the object with the new value in place, and the validation that a validated
  assignment would run on it.\<close>

definition BaseModel_setattr ::
  "ConfigDict option \<Rightarrow> string \<Rightarrow> ('a \<Rightarrow> exn + 'a) \<Rightarrow> 'a \<Rightarrow> exn + 'a" where
  "BaseModel_setattr model_config attr revalidate assigned =
     (if frozen (config_of model_config)
        then Inl (ValidationError [LineError [Key attr] Frozen_instance])
      else if validate_assignment (config_of model_config) then revalidate assigned
      else Inr assigned)"

text \<open>The attributes of the four classes with a value to assign, the assignment itself,
  and the arguments that hold the attributes of an object.\<close>

datatype SpaceStation_attr =
    Station_id string | Station_name string | Crew_size int | Power_level pyfloat
  | Oxygen_level pyfloat | Last_maintenance datetime | Is_operational bool
  | Notes "string option"

fun SpaceStation_attr_name :: "SpaceStation_attr \<Rightarrow> string" where
  "SpaceStation_attr_name (Station_id v) = ''station_id''"
| "SpaceStation_attr_name (Station_name v) = ''name''"
| "SpaceStation_attr_name (Crew_size v) = ''crew_size''"
| "SpaceStation_attr_name (Power_level v) = ''power_level''"
| "SpaceStation_attr_name (Oxygen_level v) = ''oxygen_level''"
| "SpaceStation_attr_name (Last_maintenance v) = ''last_maintenance''"
| "SpaceStation_attr_name (Is_operational v) = ''is_operational''"
| "SpaceStation_attr_name (Notes v) = ''notes''"

fun SpaceStation_assign :: "SpaceStation_attr \<Rightarrow> SpaceStation \<Rightarrow> SpaceStation" where
  "SpaceStation_assign (Station_id v) self = self\<lparr>station_id := v\<rparr>"
| "SpaceStation_assign (Station_name v) self = self\<lparr>SpaceStation.name := v\<rparr>"
| "SpaceStation_assign (Crew_size v) self = self\<lparr>crew_size := v\<rparr>"
| "SpaceStation_assign (Power_level v) self = self\<lparr>power_level := v\<rparr>"
| "SpaceStation_assign (Oxygen_level v) self = self\<lparr>oxygen_level := v\<rparr>"
| "SpaceStation_assign (Last_maintenance v) self = self\<lparr>last_maintenance := v\<rparr>"
| "SpaceStation_assign (Is_operational v) self = self\<lparr>is_operational := v\<rparr>"
| "SpaceStation_assign (Notes v) self = self\<lparr>notes' := v\<rparr>"

definition SpaceStation_dump :: "SpaceStation \<Rightarrow> SpaceStation_kwargs" where
  "SpaceStation_dump self =
     \<lparr>kw_station_id = Given (station_id self),
      SpaceStation_kwargs.kw_name = Given (SpaceStation.name self),
      kw_crew_size = Given (crew_size self), kw_power_level = Given (power_level self),
      kw_oxygen_level = Given (oxygen_level self),
      kw_last_maintenance = Given (last_maintenance self),
      kw_is_operational = Given (is_operational self), kw_notes = Given (notes' self)\<rparr>"

definition SpaceStation_setattr :: "SpaceStation \<Rightarrow> SpaceStation_attr \<Rightarrow> exn + SpaceStation" where
  "SpaceStation_setattr self a =
     BaseModel_setattr SpaceStation_model_config (SpaceStation_attr_name a)
       (\<lambda>s. no_model_validator
               (SpaceStation_fields (Given (last_maintenance s)) (SpaceStation_dump s)))
       (SpaceStation_assign a self)"

datatype AlienContact_attr =
    Contact_id string | Timestamp datetime | Location string | Contact_type ContactType
  | Signal_strength pyfloat | Duration_minutes int | Witness_count int
  | Message_received "string option" | Is_verified bool

fun AlienContact_attr_name :: "AlienContact_attr \<Rightarrow> string" where
  "AlienContact_attr_name (Contact_id v) = ''contact_id''"
| "AlienContact_attr_name (Timestamp v) = ''timestamp''"
| "AlienContact_attr_name (Location v) = ''location''"
| "AlienContact_attr_name (Contact_type v) = ''contact_type''"
| "AlienContact_attr_name (Signal_strength v) = ''signal_strength''"
| "AlienContact_attr_name (Duration_minutes v) = ''duration_minutes''"
| "AlienContact_attr_name (Witness_count v) = ''witness_count''"
| "AlienContact_attr_name (Message_received v) = ''message_received''"
| "AlienContact_attr_name (Is_verified v) = ''is_verified''"

fun AlienContact_assign :: "AlienContact_attr \<Rightarrow> AlienContact \<Rightarrow> AlienContact" where
  "AlienContact_assign (Contact_id v) self = self\<lparr>contact_id := v\<rparr>"
| "AlienContact_assign (Timestamp v) self = self\<lparr>timestamp := v\<rparr>"
| "AlienContact_assign (Location v) self = self\<lparr>location := v\<rparr>"
| "AlienContact_assign (Contact_type v) self = self\<lparr>contact_type := v\<rparr>"
| "AlienContact_assign (Signal_strength v) self = self\<lparr>signal_strength := v\<rparr>"
| "AlienContact_assign (Duration_minutes v) self = self\<lparr>duration_minutes := v\<rparr>"
| "AlienContact_assign (Witness_count v) self = self\<lparr>witness_count := v\<rparr>"
| "AlienContact_assign (Message_received v) self = self\<lparr>message_received := v\<rparr>"
| "AlienContact_assign (Is_verified v) self = self\<lparr>is_verified := v\<rparr>"

definition AlienContact_dump :: "AlienContact \<Rightarrow> AlienContact_kwargs" where
  "AlienContact_dump self =
     \<lparr>kw_contact_id = Given (contact_id self), kw_timestamp = Given (timestamp self),
      kw_location = Given (location self), kw_contact_type = Given (contact_type self),
      kw_signal_strength = Given (signal_strength self),
      kw_duration_minutes = Given (duration_minutes self),
      kw_witness_count = Given (witness_count self),
      kw_message_received = Given (message_received self),
      kw_is_verified = Given (is_verified self)\<rparr>"

definition AlienContact_setattr :: "AlienContact \<Rightarrow> AlienContact_attr \<Rightarrow> exn + AlienContact" where
  "AlienContact_setattr self a =
     BaseModel_setattr AlienContact_model_config (AlienContact_attr_name a)
       (\<lambda>s. model_validator_after validate_contact
               (AlienContact_fields (Given (timestamp s)) (AlienContact_dump s)))
       (AlienContact_assign a self)"

datatype CrewMember_attr =
    Member_id string | Member_name string | Member_rank Rank | Age int
  | Specialization string | Years_experience int | Is_active bool

fun CrewMember_attr_name :: "CrewMember_attr \<Rightarrow> string" where
  "CrewMember_attr_name (Member_id v) = ''member_id''"
| "CrewMember_attr_name (Member_name v) = ''name''"
| "CrewMember_attr_name (Member_rank v) = ''rank''"
| "CrewMember_attr_name (Age v) = ''age''"
| "CrewMember_attr_name (Specialization v) = ''specialization''"
| "CrewMember_attr_name (Years_experience v) = ''years_experience''"
| "CrewMember_attr_name (Is_active v) = ''is_active''"

fun CrewMember_assign :: "CrewMember_attr \<Rightarrow> CrewMember \<Rightarrow> CrewMember" where
  "CrewMember_assign (Member_id v) self = self\<lparr>member_id := v\<rparr>"
| "CrewMember_assign (Member_name v) self = self\<lparr>name := v\<rparr>"
| "CrewMember_assign (Member_rank v) self = self\<lparr>rank := v\<rparr>"
| "CrewMember_assign (Age v) self = self\<lparr>age := v\<rparr>"
| "CrewMember_assign (Specialization v) self = self\<lparr>specialization := v\<rparr>"
| "CrewMember_assign (Years_experience v) self = self\<lparr>years_experience := v\<rparr>"
| "CrewMember_assign (Is_active v) self = self\<lparr>is_active := v\<rparr>"

definition CrewMember_dump :: "CrewMember \<Rightarrow> CrewMember_kwargs" where
  "CrewMember_dump self =
     \<lparr>kw_member_id = Given (member_id self), kw_name = Given (name self),
      kw_rank = Given (rank self), kw_age = Given (age self),
      kw_specialization = Given (specialization self),
      kw_years_experience = Given (years_experience self),
      kw_is_active = Given (is_active self)\<rparr>"

definition CrewMember_setattr :: "CrewMember \<Rightarrow> CrewMember_attr \<Rightarrow> exn + CrewMember" where
  "CrewMember_setattr self a =
     BaseModel_setattr CrewMember_model_config (CrewMember_attr_name a)
       (\<lambda>s. CrewMember_new (CrewMember_dump s))
       (CrewMember_assign a self)"

datatype SpaceMission_attr =
    Mission_id string | Mission_name string | Destination string | Launch_date datetime
  | Duration_days int | Crew "CrewMember list" | Mission_status string
  | Budget_millions pyfloat

fun SpaceMission_attr_name :: "SpaceMission_attr \<Rightarrow> string" where
  "SpaceMission_attr_name (Mission_id v) = ''mission_id''"
| "SpaceMission_attr_name (Mission_name v) = ''mission_name''"
| "SpaceMission_attr_name (Destination v) = ''destination''"
| "SpaceMission_attr_name (Launch_date v) = ''launch_date''"
| "SpaceMission_attr_name (Duration_days v) = ''duration_days''"
| "SpaceMission_attr_name (Crew v) = ''crew''"
| "SpaceMission_attr_name (Mission_status v) = ''mission_status''"
| "SpaceMission_attr_name (Budget_millions v) = ''budget_millions''"

fun SpaceMission_assign :: "SpaceMission_attr \<Rightarrow> SpaceMission \<Rightarrow> SpaceMission" where
  "SpaceMission_assign (Mission_id v) self = self\<lparr>mission_id := v\<rparr>"
| "SpaceMission_assign (Mission_name v) self = self\<lparr>mission_name := v\<rparr>"
| "SpaceMission_assign (Destination v) self = self\<lparr>destination := v\<rparr>"
| "SpaceMission_assign (Launch_date v) self = self\<lparr>launch_date := v\<rparr>"
| "SpaceMission_assign (Duration_days v) self = self\<lparr>duration_days := v\<rparr>"
| "SpaceMission_assign (Crew v) self = self\<lparr>crew := v\<rparr>"
| "SpaceMission_assign (Mission_status v) self = self\<lparr>mission_status := v\<rparr>"
| "SpaceMission_assign (Budget_millions v) self = self\<lparr>budget_millions := v\<rparr>"

definition SpaceMission_dump :: "SpaceMission \<Rightarrow> SpaceMission_kwargs" where
  "SpaceMission_dump self =
     \<lparr>kw_mission_id = Given (mission_id self), kw_mission_name = Given (mission_name self),
      kw_destination = Given (destination self), kw_launch_date = Given (launch_date self),
      kw_duration_days = Given (duration_days self),
      kw_crew = Given (map Instance (crew self)),
      kw_mission_status = Given (mission_status self),
      kw_budget_millions = Given (budget_millions self)\<rparr>"

definition SpaceMission_setattr :: "SpaceMission \<Rightarrow> SpaceMission_attr \<Rightarrow> exn + SpaceMission" where
  "SpaceMission_setattr self a =
     BaseModel_setattr SpaceMission_model_config (SpaceMission_attr_name a)
       (\<lambda>s. model_validator_after validate_mission
               (SpaceMission_fields (Given (launch_date s)) (SpaceMission_dump s)))
       (SpaceMission_assign a self)"

section \<open>The specification's reading of the schemas\<close>

text \<open>
  The definitions of this section follow the words of the specification, to be compared
  with the models above. A constraint is an inclusive range or length; a field is
  present or not, and of its type or not; a violation names the field's path and the
  kind of the error.
\<close>

datatype error_kind =
  PresenceError | TypeError | LengthError | RangeError | RuleError | OtherError

type_synonym violation = "loc_item list \<times> error_kind"

definition within_length :: "nat \<Rightarrow> nat \<Rightarrow> nat \<Rightarrow> bool" where
  "within_length lo hi n = (lo \<le> n \<and> n \<le> hi)"

definition within_range :: "int \<Rightarrow> int \<Rightarrow> int \<Rightarrow> bool" where
  "within_range lo hi i = (lo \<le> i \<and> i \<le> hi)"

fun within_float_range :: "rat \<Rightarrow> rat \<Rightarrow> pyfloat \<Rightarrow> bool" where
  "within_float_range lo hi (Finite x) = (lo \<le> x \<and> x \<le> hi)"
| "within_float_range lo hi PosInf = False"
| "within_float_range lo hi NegInf = False"
| "within_float_range lo hi NaN = False"

fun optional_length :: "nat \<Rightarrow> string option \<Rightarrow> bool" where
  "optional_length hi None = True"
| "optional_length hi (Some s) = (length s \<le> hi)"

text \<open>A field that has a type and no further constraint.\<close>

definition unconstrained :: "'a \<Rightarrow> bool" where
  "unconstrained x = True"

text \<open>A required field: a presence error when it is missing, a type error when the
  value is not of the field's type, else the error of its constraint when that fails.
  A field with a default has no presence error.\<close>

definition required_field ::
  "string \<Rightarrow> error_kind \<Rightarrow> ('a \<Rightarrow> bool) \<Rightarrow> 'a arg \<Rightarrow> violation list" where
  "required_field fname k ok x =
     (case x of
        Absent \<Rightarrow> [([Key fname], PresenceError)]
      | Mistyped \<Rightarrow> [([Key fname], TypeError)]
      | Given v \<Rightarrow> if ok v then [] else [([Key fname], k)])"

definition defaulted_field ::
  "string \<Rightarrow> error_kind \<Rightarrow> ('a \<Rightarrow> bool) \<Rightarrow> 'a arg \<Rightarrow> violation list" where
  "defaulted_field fname k ok x =
     (case x of
        Absent \<Rightarrow> []
      | Mistyped \<Rightarrow> [([Key fname], TypeError)]
      | Given v \<Rightarrow> if ok v then [] else [([Key fname], k)])"

fun kind_of :: "error_type \<Rightarrow> error_kind" where
  "kind_of Missing = PresenceError"
| "kind_of Type_error = TypeError"
| "kind_of String_too_short = LengthError"
| "kind_of String_too_long = LengthError"
| "kind_of Too_short = LengthError"
| "kind_of Too_long = LengthError"
| "kind_of Greater_than_equal = RangeError"
| "kind_of Less_than_equal = RangeError"
| "kind_of (Value_error m) = RuleError"
| "kind_of Frozen_instance = OtherError"

definition describe :: "line_error \<Rightarrow> violation" where
  "describe e = (loc e, kind_of (etype e))"

definition SpaceStation_violations :: "SpaceStation_kwargs \<Rightarrow> violation list" where
  "SpaceStation_violations kw =
     required_field ''station_id'' LengthError (\<lambda>s. within_length 3 10 (length s)) (kw_station_id kw)
   @ required_field ''name'' LengthError (\<lambda>s. within_length 1 50 (length s)) (SpaceStation_kwargs.kw_name kw)
   @ required_field ''crew_size'' RangeError (within_range 1 20) (kw_crew_size kw)
   @ required_field ''power_level'' RangeError (within_float_range 0 100) (kw_power_level kw)
   @ required_field ''oxygen_level'' RangeError (within_float_range 0 100) (kw_oxygen_level kw)
   @ defaulted_field ''last_maintenance'' TypeError unconstrained (kw_last_maintenance kw)
   @ defaulted_field ''is_operational'' TypeError unconstrained (kw_is_operational kw)
   @ defaulted_field ''notes'' LengthError (optional_length 200) (kw_notes kw)"

definition AlienContact_violations :: "AlienContact_kwargs \<Rightarrow> violation list" where
  "AlienContact_violations kw =
     required_field ''contact_id'' LengthError (\<lambda>s. within_length 5 15 (length s)) (kw_contact_id kw)
   @ defaulted_field ''timestamp'' TypeError unconstrained (kw_timestamp kw)
   @ required_field ''location'' LengthError (\<lambda>s. within_length 3 100 (length s)) (kw_location kw)
   @ required_field ''contact_type'' TypeError unconstrained (kw_contact_type kw)
   @ required_field ''signal_strength'' RangeError (within_float_range 0 10) (kw_signal_strength kw)
   @ required_field ''duration_minutes'' RangeError (within_range 1 1440) (kw_duration_minutes kw)
   @ required_field ''witness_count'' RangeError (within_range 1 100) (kw_witness_count kw)
   @ defaulted_field ''message_received'' LengthError (optional_length 500) (kw_message_received kw)
   @ defaulted_field ''is_verified'' TypeError unconstrained (kw_is_verified kw)"

definition CrewMember_violations :: "CrewMember_kwargs \<Rightarrow> violation list" where
  "CrewMember_violations kw =
     required_field ''member_id'' LengthError (\<lambda>s. within_length 3 10 (length s)) (kw_member_id kw)
   @ required_field ''name'' LengthError (\<lambda>s. within_length 2 50 (length s)) (CrewMember_kwargs.kw_name kw)
   @ required_field ''rank'' TypeError unconstrained (kw_rank kw)
   @ required_field ''age'' RangeError (within_range 18 80) (kw_age kw)
   @ required_field ''specialization'' LengthError (\<lambda>s. within_length 3 30 (length s)) (kw_specialization kw)
   @ required_field ''years_experience'' RangeError (within_range 0 50) (kw_years_experience kw)
   @ defaulted_field ''is_active'' TypeError unconstrained (kw_is_active kw)"

text \<open>
  The violations of a value given as an item of \<^verbatim>\<open>crew\<close>. In the words of the
  specification every item that violates a constraint of \<^verbatim>\<open>CrewMember\<close> counts,
  whether it is given as a mapping or as an object: \<open>item_violations\<close>. What is
  reported leaves out the objects: \<open>item_reported\<close>.
\<close>

fun item_violations :: "CrewMember_input \<Rightarrow> violation list" where
  "item_violations (Dict kw) = CrewMember_violations kw"
| "item_violations (Instance m) = CrewMember_violations (CrewMember_dump m)"
| "item_violations Mistyped_item = [([], TypeError)]"

fun item_reported :: "CrewMember_input \<Rightarrow> violation list" where
  "item_reported (Dict kw) = CrewMember_violations kw"
| "item_reported (Instance m) = []"
| "item_reported Mistyped_item = [([], TypeError)]"

text \<open>The violations of the items of a list field, each tagged with the field's name and
  the item's index, in the order of the list.\<close>

fun nested_violations ::
  "string \<Rightarrow> ('a \<Rightarrow> violation list) \<Rightarrow> nat \<Rightarrow> 'a list \<Rightarrow> violation list" where
  "nested_violations fname f i [] = []"
| "nested_violations fname f i (x # xs) =
     map (\<lambda>(l, k). (Key fname # Index i # l, k)) (f x) @ nested_violations fname f (i + 1) xs"

text \<open>
  The field \<^verbatim>\<open>crew\<close>. In the words of the specification the length constraint and
  the items are all looked at: \<open>crew_violations\<close>. What is reported is the error on the
  length alone when the list has more than 12 items, and otherwise the error on the
  length, if any, followed by what is reported of the items: \<open>crew_reported\<close>.
\<close>

definition crew_violations :: "CrewMember_input list arg \<Rightarrow> violation list" where
  "crew_violations x =
     (case x of
        Absent \<Rightarrow> [([Key ''crew''], PresenceError)]
      | Mistyped \<Rightarrow> [([Key ''crew''], TypeError)]
      | Given xs \<Rightarrow>
          (if within_length 1 12 (length xs) then [] else [([Key ''crew''], LengthError)])
          @ nested_violations ''crew'' item_violations 0 xs)"

definition crew_reported :: "CrewMember_input list arg \<Rightarrow> violation list" where
  "crew_reported x =
     (case x of
        Absent \<Rightarrow> [([Key ''crew''], PresenceError)]
      | Mistyped \<Rightarrow> [([Key ''crew''], TypeError)]
      | Given xs \<Rightarrow>
          if 12 < length xs then [([Key ''crew''], LengthError)]
          else (if within_length 1 12 (length xs) then [] else [([Key ''crew''], LengthError)])
               @ nested_violations ''crew'' item_reported 0 xs)"

definition mission_violations_with ::
  "(CrewMember_input list arg \<Rightarrow> violation list) \<Rightarrow> SpaceMission_kwargs \<Rightarrow> violation list" where
  "mission_violations_with crew_part kw =
     required_field ''mission_id'' LengthError (\<lambda>s. within_length 5 15 (length s)) (kw_mission_id kw)
   @ required_field ''mission_name'' LengthError (\<lambda>s. within_length 3 100 (length s)) (kw_mission_name kw)
   @ required_field ''destination'' LengthError (\<lambda>s. within_length 3 50 (length s)) (kw_destination kw)
   @ defaulted_field ''launch_date'' TypeError unconstrained (kw_launch_date kw)
   @ required_field ''duration_days'' RangeError (within_range 1 3650) (kw_duration_days kw)
   @ crew_part (kw_crew kw)
   @ defaulted_field ''mission_status'' TypeError unconstrained (kw_mission_status kw)
   @ required_field ''budget_millions'' RangeError (within_float_range 1 10000) (kw_budget_millions kw)"

definition SpaceMission_violations :: "SpaceMission_kwargs \<Rightarrow> violation list" where
  "SpaceMission_violations kw = mission_violations_with crew_violations kw"

definition SpaceMission_reported :: "SpaceMission_kwargs \<Rightarrow> violation list" where
  "SpaceMission_reported kw = mission_violations_with crew_reported kw"

text \<open>
  The rule phase in the specification's words: the rules of a schema in their declared
  order, each one a check on the record that passes or fails with an exception; the
  first failing rule stops the phase.
\<close>

fun first_failure :: "('a \<Rightarrow> exn option) list \<Rightarrow> 'a \<Rightarrow> exn + 'a" where
  "first_failure [] self = Inr self"
| "first_failure (r # rs) self =
     (case r self of Some e \<Rightarrow> Inl e | None \<Rightarrow> first_failure rs self)"

definition contact_rules :: "(AlienContact \<Rightarrow> exn option) list" where
  "contact_rules =
     [\<lambda>c. if take 2 (contact_id c) = ''AC'' then None
           else Some (ValueError [Lit ''Contact ID must start with AC'']),
      \<lambda>c. if contact_type c = physical \<longrightarrow> is_verified c then None
           else Some (ValueError [Lit ''Physical contact reports must be verified'']),
      \<lambda>c. if contact_type c = telepathic \<longrightarrow> 3 \<le> witness_count c then None
           else Some (ValueError [Lit ''Telepathic contact requires at least 3 witnesses'']),
      \<lambda>c. if float_gt (signal_strength c) 7 \<longrightarrow> truthy (message_received c) then None
           else Some (ValueError
                  [Lit ''Strong signals (> 7.0) should include received messages''])]"

text \<open>The fraction of the crew with more than four years of experience.\<close>

definition experienced_fraction :: "SpaceMission \<Rightarrow> rat" where
  "experienced_fraction m =
     rat_of_nat (length (filter (\<lambda>c. 4 < years_experience c) (crew m)))
       / rat_of_nat (length (crew m))"

definition inactive_names :: "SpaceMission \<Rightarrow> string list" where
  "inactive_names m = map name (filter (\<lambda>c. \<not> is_active c) (crew m))"

definition mission_rules :: "(SpaceMission \<Rightarrow> exn option) list" where
  "mission_rules =
     [\<lambda>m. if take 1 (mission_id m) = ''M'' then None
           else Some (ValueError [Lit (''Mission ID must start with 'M'' @ [CHR 0x27])]),
      \<lambda>m. if \<exists>c \<in> set (crew m). rank c = commander \<or> rank c = captain then None
           else Some (ValueError [Lit ''Mission must have at least one Commander or Captain'']),
      \<lambda>m. if 365 < duration_days m \<and> crew m = [] then Some ZeroDivisionError
           else if 365 < duration_days m \<longrightarrow> 1 / 2 \<le> experienced_fraction m then None
           else Some (ValueError
                  [Lit ''For long missions (> 365 days) need 50% experienced crew (5+ years)'']),
      \<lambda>m. if \<forall>c \<in> set (crew m). is_active c then None
           else Some (ValueError
                  [Lit ''All crew members must be active. Inactive members: '',
                   ReprStrList (inactive_names m)])]"

text \<open>A concrete wall clock, whose readings are \<open>t\<close>, \<open>t + 1\<close>, \<open>t + 2\<close> and so on.\<close>

definition clock_from :: "datetime \<Rightarrow> world" where
  "clock_from t = siterate (\<lambda>x. x + 1) t"

definition field_errors :: "string \<Rightarrow> line_error list \<Rightarrow> line_error list" where
  "field_errors fname es = filter (\<lambda>e. take 1 (loc e) = [Key fname]) es"

section \<open>The inputs of the three \<^verbatim>\<open>main\<close> functions\<close>

text \<open>
  The keyword arguments that the \<^verbatim>\<open>main\<close> functions pass, and the records that the
  constructors build from the valid ones when the clock reads 0. The crew of a mission
  is passed as objects built by \<^verbatim>\<open>CrewMember(...)\<close> before. The missions are given here
  without \<^verbatim>\<open>launch_date\<close>: the source passes the function \<^verbatim>\<open>datetime.now\<close> itself
  there, which is not a point in time, see \<open>mission1_as_passed\<close>.
\<close>

definition station1 :: SpaceStation_kwargs where
  "station1 =
     \<lparr>kw_station_id = Given ''ISS001'',
      SpaceStation_kwargs.kw_name = Given ''International Space Station'',
      kw_crew_size = Given 6, kw_power_level = Given (Finite 85.5),
      kw_oxygen_level = Given (Finite 92.3), kw_last_maintenance = Absent,
      kw_is_operational = Absent, kw_notes = Absent\<rparr>"

definition station1_record :: SpaceStation where
  "station1_record =
     \<lparr>station_id = ''ISS001'', SpaceStation.name = ''International Space Station'',
      crew_size = 6, power_level = Finite 85.5, oxygen_level = Finite 92.3,
      last_maintenance = 0, is_operational = True, notes' = None\<rparr>"

definition station2 :: SpaceStation_kwargs where
  "station2 = station1\<lparr>kw_crew_size := Given 155\<rparr>"

definition contact1 :: AlienContact_kwargs where
  "contact1 =
     \<lparr>kw_contact_id = Given ''AC_2024_001'', kw_timestamp = Absent,
      kw_location = Given ''Area 51, Nevada'', kw_contact_type = Given radio,
      kw_signal_strength = Given (Finite 8.5), kw_duration_minutes = Given 45,
      kw_witness_count = Given 5,
      kw_message_received = Given (Some ''Greetings from Zeta Reticuli''),
      kw_is_verified = Absent\<rparr>"

definition contact1_record :: AlienContact where
  "contact1_record =
     \<lparr>contact_id = ''AC_2024_001'', timestamp = 0, location = ''Area 51, Nevada'',
      contact_type = radio, signal_strength = Finite 8.5, duration_minutes = 45,
      witness_count = 5, message_received = Some ''Greetings from Zeta Reticuli'',
      is_verified = False\<rparr>"

definition contact2 :: AlienContact_kwargs where
  "contact2 =
     contact1\<lparr>kw_contact_id := Given ''AC_2020_983'', kw_contact_type := Given telepathic,
              kw_witness_count := Given 1\<rparr>"

definition sarah :: CrewMember_kwargs where
  "sarah =
     \<lparr>kw_member_id = Given ''C001'', kw_name = Given ''Sarah Connor'',
      kw_rank = Given commander, kw_age = Given 40,
      kw_specialization = Given ''Mission Command'', kw_years_experience = Given 15,
      kw_is_active = Absent\<rparr>"

definition john :: CrewMember_kwargs where
  "john =
     \<lparr>kw_member_id = Given ''C002'', kw_name = Given ''John Smith'',
      kw_rank = Given lieutenant, kw_age = Given 32,
      kw_specialization = Given ''Navigation'', kw_years_experience = Given 8,
      kw_is_active = Absent\<rparr>"

definition alice :: CrewMember_kwargs where
  "alice =
     \<lparr>kw_member_id = Given ''C003'', kw_name = Given ''Alice Johnson'',
      kw_rank = Given officer, kw_age = Given 28,
      kw_specialization = Given ''Engineering'', kw_years_experience = Given 5,
      kw_is_active = Absent\<rparr>"

definition bob :: CrewMember_kwargs where
  "bob =
     \<lparr>kw_member_id = Given ''C004'', kw_name = Given ''Bob'', kw_rank = Given cadet,
      kw_age = Given 22, kw_specialization = Given ''Cleaning'',
      kw_years_experience = Given 1, kw_is_active = Absent\<rparr>"

definition sarah_record :: CrewMember where
  "sarah_record =
     \<lparr>member_id = ''C001'', name = ''Sarah Connor'', rank = commander, age = 40,
      specialization = ''Mission Command'', years_experience = 15, is_active = True\<rparr>"

definition john_record :: CrewMember where
  "john_record =
     \<lparr>member_id = ''C002'', name = ''John Smith'', rank = lieutenant, age = 32,
      specialization = ''Navigation'', years_experience = 8, is_active = True\<rparr>"

definition alice_record :: CrewMember where
  "alice_record =
     \<lparr>member_id = ''C003'', name = ''Alice Johnson'', rank = officer, age = 28,
      specialization = ''Engineering'', years_experience = 5, is_active = True\<rparr>"

definition bob_record :: CrewMember where
  "bob_record =
     \<lparr>member_id = ''C004'', name = ''Bob'', rank = cadet, age = 22,
      specialization = ''Cleaning'', years_experience = 1, is_active = True\<rparr>"

definition mission1 :: SpaceMission_kwargs where
  "mission1 =
     \<lparr>kw_mission_id = Given ''M2024_MARS'',
      kw_mission_name = Given ''Mars Colony Establishment'', kw_destination = Given ''Mars'',
      kw_launch_date = Absent, kw_duration_days = Given 900,
      kw_crew = Given [Instance sarah_record, Instance john_record, Instance alice_record],
      kw_mission_status = Absent, kw_budget_millions = Given (Finite 2500)\<rparr>"

definition mission1_as_passed :: SpaceMission_kwargs where
  "mission1_as_passed = mission1\<lparr>kw_launch_date := Mistyped\<rparr>"

definition mission1_record :: SpaceMission where
  "mission1_record =
     \<lparr>mission_id = ''M2024_MARS'', mission_name = ''Mars Colony Establishment'',
      destination = ''Mars'', launch_date = 0, duration_days = 900,
      crew = [sarah_record, john_record, alice_record], mission_status = ''planned'',
      budget_millions = Finite 2500\<rparr>"

definition mission2 :: SpaceMission_kwargs where
  "mission2 =
     \<lparr>kw_mission_id = Given ''M2024_MOON'', kw_mission_name = Given ''Moon Base'',
      kw_destination = Given ''Moon'', kw_launch_date = Absent, kw_duration_days = Given 30,
      kw_crew = Given [Instance bob_record], kw_mission_status = Absent,
      kw_budget_millions = Given (Finite 500)\<rparr>"

text \<open>A mission with fourteen crew members given as mappings, the first of them five
  years old.\<close>

definition crew_long :: "CrewMember_input list" where
  "crew_long = Dict (sarah\<lparr>kw_age := Given 5\<rparr>) # replicate 13 (Dict sarah)"

definition mission_long :: SpaceMission_kwargs where
  "mission_long = mission1\<lparr>kw_crew := Given crew_long\<rparr>"

text \<open>
  The first mission of \<^verbatim>\<open>main\<close> after the assignment \<^verbatim>\<open>age = 5\<close> on its first crew
  member, which was built with the age 40, and the record that the constructor builds
  from it.
\<close>

definition crew_mutated :: "CrewMember_input list" where
  "crew_mutated =
     [Instance (CrewMember_assign (Age 5) sarah_record), Instance john_record,
      Instance alice_record]"

definition mission_mutated :: SpaceMission_kwargs where
  "mission_mutated = mission1\<lparr>kw_crew := Given crew_mutated\<rparr>"

definition mission_mutated_record :: SpaceMission where
  "mission_mutated_record =
     mission1_record\<lparr>crew := [CrewMember_assign (Age 5) sarah_record, john_record,
                               alice_record]\<rparr>"

text \<open>The first mission of \<^verbatim>\<open>main\<close> with two of its members given as mappings.\<close>

definition crew_mixed :: "CrewMember_input list" where
  "crew_mixed = [Dict sarah, Instance john_record, Dict alice]"

definition mission_mixed :: SpaceMission_kwargs where
  "mission_mixed = mission1\<lparr>kw_crew := Given crew_mixed\<rparr>"

text \<open>Inputs with several fields out of their bounds, missing or of another type.\<close>

definition contact_bad :: AlienContact_kwargs where
  "contact_bad =
     contact1\<lparr>kw_location := Absent, kw_contact_type := Mistyped,
              kw_signal_strength := Given (Finite 11), kw_witness_count := Given 0\<rparr>"

definition member_bad :: CrewMember_kwargs where
  "member_bad = sarah\<lparr>kw_member_id := Given ''C'', kw_age := Given 5\<rparr>"

definition crew_bad :: "CrewMember_input list" where
  "crew_bad =
     [Dict (sarah\<lparr>kw_age := Given 5\<rparr>), Instance john_record,
      Dict (alice\<lparr>kw_name := Given ''A'', kw_rank := Mistyped,
                   kw_years_experience := Given 60\<rparr>)]"

definition mission_bad :: SpaceMission_kwargs where
  "mission_bad =
     mission1\<lparr>kw_duration_days := Given 0, kw_crew := Given crew_bad,
              kw_budget_millions := Given NaN\<rparr>"

text \<open>Inputs that pass the field phase and violate two rules: a telepathic contact
  with one witness, a strong signal and no message; a mission whose only member is a
  cadet who is not active. With them the records that the field phase builds when the
  clock reads 0.\<close>

definition contact_two_rules :: AlienContact_kwargs where
  "contact_two_rules = contact2\<lparr>kw_message_received := Absent\<rparr>"

definition mission_two_rules :: SpaceMission_kwargs where
  "mission_two_rules = mission2\<lparr>kw_crew := Given [Dict (bob\<lparr>kw_is_active := Given False\<rparr>)]\<rparr>"

definition contact_two_rules_record :: AlienContact where
  "contact_two_rules_record =
     \<lparr>contact_id = ''AC_2020_983'', timestamp = 0, location = ''Area 51, Nevada'',
      contact_type = telepathic, signal_strength = Finite 8.5, duration_minutes = 45,
      witness_count = 1, message_received = None, is_verified = False\<rparr>"

definition mission_two_rules_record :: SpaceMission where
  "mission_two_rules_record =
     \<lparr>mission_id = ''M2024_MOON'', mission_name = ''Moon Base'', destination = ''Moon'',
      launch_date = 0, duration_days = 30,
      crew = [bob_record\<lparr>is_active := False\<rparr>],
      mission_status = ''planned'', budget_millions = Finite 500\<rparr>"

text \<open>
  What the specification asks of a constructed record: every field inside its inclusive
  bounds, and every rule of the schema passing. For a mission this is said of its own
  fields; \<open>member_accepted\<close> says where each member of its crew comes from: built from
  a mapping by the constructor of \<^verbatim>\<open>CrewMember\<close>, or the object that was passed.
\<close>

definition SpaceStation_valid :: "SpaceStation \<Rightarrow> bool" where
  "SpaceStation_valid s =
     (within_length 3 10 (length (station_id s))
    \<and> within_length 1 50 (length (SpaceStation.name s))
    \<and> within_range 1 20 (crew_size s)
    \<and> within_float_range 0 100 (power_level s)
    \<and> within_float_range 0 100 (oxygen_level s)
    \<and> optional_length 200 (notes' s))"

definition AlienContact_valid :: "AlienContact \<Rightarrow> bool" where
  "AlienContact_valid c =
     (within_length 5 15 (length (contact_id c))
    \<and> within_length 3 100 (length (location c))
    \<and> within_float_range 0 10 (signal_strength c)
    \<and> within_range 1 1440 (duration_minutes c)
    \<and> within_range 1 100 (witness_count c)
    \<and> optional_length 500 (message_received c)
    \<and> list_all (\<lambda>r. r c = None) contact_rules)"

definition CrewMember_valid :: "CrewMember \<Rightarrow> bool" where
  "CrewMember_valid m =
     (within_length 3 10 (length (member_id m))
    \<and> within_length 2 50 (length (name m))
    \<and> within_range 18 80 (age m)
    \<and> within_length 3 30 (length (specialization m))
    \<and> within_range 0 50 (years_experience m))"

definition SpaceMission_valid :: "SpaceMission \<Rightarrow> bool" where
  "SpaceMission_valid m =
     (within_length 5 15 (length (mission_id m))
    \<and> within_length 3 100 (length (mission_name m))
    \<and> within_length 3 50 (length (destination m))
    \<and> within_range 1 3650 (duration_days m)
    \<and> within_length 1 12 (length (crew m))
    \<and> within_float_range 1 10000 (budget_millions m)
    \<and> list_all (\<lambda>r. r m = None) mission_rules)"

fun member_accepted :: "CrewMember_input \<Rightarrow> CrewMember \<Rightarrow> bool" where
  "member_accepted (Dict kw) c = (CrewMember_new kw = Inr c)"
| "member_accepted (Instance m) c = (c = m)"
| "member_accepted Mistyped_item c = False"

text \<open>The first contact of \<^verbatim>\<open>main\<close> with the empty string as its message.\<close>

definition contact_empty_message :: AlienContact_kwargs where
  "contact_empty_message = contact1\<lparr>kw_message_received := Given (Some [])\<rparr>"

text \<open>Long missions with one experienced member out of three, and one out of two.\<close>

definition mission_third :: SpaceMission_kwargs where
  "mission_third = mission1\<lparr>kw_crew := Given [Dict sarah, Dict bob, Dict bob]\<rparr>"

definition mission_third_record :: SpaceMission where
  "mission_third_record = mission1_record\<lparr>crew := [sarah_record, bob_record, bob_record]\<rparr>"

definition mission_half :: SpaceMission_kwargs where
  "mission_half = mission1\<lparr>kw_crew := Given [Dict sarah, Dict bob]\<rparr>"

definition mission_half_record :: SpaceMission where
  "mission_half_record = mission1_record\<lparr>crew := [sarah_record, bob_record]\<rparr>"

text \<open>The first mission of \<^verbatim>\<open>main\<close> with two of its three members not active.\<close>

definition mission_inactive :: SpaceMission_kwargs where
  "mission_inactive =
     mission1\<lparr>kw_crew := Given [Dict sarah, Dict (john\<lparr>kw_is_active := Given False\<rparr>),
                               Dict (alice\<lparr>kw_is_active := Given False\<rparr>)]\<rparr>"

definition mission_inactive_record :: SpaceMission where
  "mission_inactive_record =
     mission1_record\<lparr>crew := [sarah_record, john_record\<lparr>is_active := False\<rparr>,
                               alice_record\<lparr>is_active := False\<rparr>]\<rparr>"

section \<open>The list walk as two list functions\<close>

text \<open>The errors of the items of a list, each with its index in front of its location,
  and the values of the valid items: what the walk of the list validator accumulates.\<close>

fun item_errors :: "('a \<Rightarrow> line_error list + 'b) \<Rightarrow> nat \<Rightarrow> 'a list \<Rightarrow> line_error list" where
  "item_errors v i [] = []"
| "item_errors v i (x # xs) =
     map (with_outer_location (Index i)) (errs (v x)) @ item_errors v (i + 1) xs"

fun item_values :: "('a \<Rightarrow> line_error list + 'b) \<Rightarrow> 'a list \<Rightarrow> 'b list" where
  "item_values v [] = []"
| "item_values v (x # xs) = (case v x of Inr y \<Rightarrow> [y] | Inl es \<Rightarrow> []) @ item_values v xs"

section \<open>Facts about the validators\<close>

lemma str_validator_Inr:
  "str_validator mn mx s = Inr r \<longleftrightarrow>
     r = s \<and> (case mn of Some n \<Rightarrow> n \<le> length s | None \<Rightarrow> True)
           \<and> (case mx of Some n \<Rightarrow> length s \<le> n | None \<Rightarrow> True)"
  by (auto simp: str_validator_def split: option.splits)

lemma int_validator_Inr: "int_validator lo hi i = Inr r \<longleftrightarrow> r = i \<and> lo \<le> i \<and> i \<le> hi"
  by (auto simp: int_validator_def)

lemma float_le_ge_iff: "float_le x hi \<and> float_ge x lo \<longleftrightarrow> within_float_range lo hi x"
  by (cases x) auto

lemma float_validator_Inr:
  "float_validator lo hi x = Inr r \<longleftrightarrow> r = x \<and> within_float_range lo hi x"
  using float_le_ge_iff [of x hi lo] by (auto simp: float_validator_def)

lemma nullable_Inr:
  "nullable v x = Inr r \<longleftrightarrow> (case x of None \<Rightarrow> r = None | Some y \<Rightarrow> \<exists>z. v y = Inr z \<and> r = Some z)"
  by (auto simp: nullable_def split: option.splits sum.splits)

lemma required_Inr: "required n v x = Inr r \<longleftrightarrow> (\<exists>y. x = Given y \<and> v y = Inr r)"
  by (auto simp: required_def split: arg.splits sum.splits)

lemma with_default_Inr:
  "with_default n d v x = Inr r \<longleftrightarrow>
     (case x of Absent \<Rightarrow> r = d | Given y \<Rightarrow> v y = Inr r | Mistyped \<Rightarrow> False)"
  by (auto simp: with_default_def split: arg.splits sum.splits)

lemma errs_required:
  "errs (required n v x) =
     (case x of
        Absent \<Rightarrow> [LineError [Key n] Missing]
      | Mistyped \<Rightarrow> [LineError [Key n] Type_error]
      | Given y \<Rightarrow> map (with_outer_location (Key n)) (errs (v y)))"
  by (auto simp: required_def split: arg.splits sum.splits)

lemma errs_with_default:
  "errs (with_default n d v x) =
     (case x of
        Absent \<Rightarrow> []
      | Mistyped \<Rightarrow> [LineError [Key n] Type_error]
      | Given y \<Rightarrow> map (with_outer_location (Key n)) (errs (v y)))"
  by (auto simp: with_default_def split: arg.splits sum.splits)

lemma default_factory_now_fst:
  "fst (default_factory_now x w) = (case x of Absent \<Rightarrow> Given (shd w) | Given t \<Rightarrow> Given t
     | Mistyped \<Rightarrow> Mistyped)"
  by (simp add: default_factory_now_def datetime_now_def split: arg.splits)

lemma str_validator_sound [simp]: "str_validator mn mx s \<noteq> Inl []"
  by (simp add: str_validator_def)

lemma int_validator_sound [simp]: "int_validator lo hi i \<noteq> Inl []"
  by (simp add: int_validator_def)

lemma float_validator_sound [simp]: "float_validator lo hi x \<noteq> Inl []"
  by (simp add: float_validator_def)

lemma any_validator_sound [simp]: "any_validator x \<noteq> Inl []"
  by (simp add: any_validator_def)

lemma nullable_sound [simp]: "(\<And>y. v y \<noteq> Inl []) \<Longrightarrow> nullable v x \<noteq> Inl []"
  by (auto simp: nullable_def split: option.splits sum.splits)

lemma required_sound [simp]: "(\<And>y. v y \<noteq> Inl []) \<Longrightarrow> required n v x \<noteq> Inl []"
  by (auto simp: required_def split: arg.splits sum.splits)

lemma with_default_sound [simp]: "(\<And>y. v y \<noteq> Inl []) \<Longrightarrow> with_default n d v x \<noteq> Inl []"
  by (auto simp: with_default_def split: arg.splits sum.splits)

lemma errs_Nil_iff: "r \<noteq> Inl [] \<Longrightarrow> errs r = [] \<longleftrightarrow> (\<exists>x. r = Inr x)"
  by (cases r) auto

lemma describe_required_str:
  "map describe (errs (required n (str_validator (Some lo) (Some hi)) x)) =
     required_field n LengthError (\<lambda>s. within_length lo hi (length s)) x"
  by (auto simp: errs_required required_field_def str_validator_def describe_def
        with_outer_location_def within_length_def split: arg.splits)

lemma describe_required_int:
  "map describe (errs (required n (int_validator lo hi) x)) =
     required_field n RangeError (within_range lo hi) x"
  by (auto simp: errs_required required_field_def int_validator_def describe_def
        with_outer_location_def within_range_def split: arg.splits)

lemma describe_required_float:
  "map describe (errs (required n (float_validator lo hi) x)) =
     required_field n RangeError (within_float_range lo hi) x"
  using float_le_ge_iff
  by (auto simp: errs_required required_field_def float_validator_def describe_def
        with_outer_location_def split: arg.splits)

lemma describe_required_any:
  "map describe (errs (required n any_validator x)) = required_field n k unconstrained x"
  by (auto simp: errs_required required_field_def any_validator_def describe_def
        unconstrained_def split: arg.splits)

lemma describe_default_any:
  "map describe (errs (with_default n d any_validator x)) = defaulted_field n k unconstrained x"
  by (auto simp: errs_with_default defaulted_field_def any_validator_def describe_def
        unconstrained_def split: arg.splits)

lemma describe_timestamp:
  "required_field n k unconstrained (fst (default_factory_now x w)) =
     defaulted_field n k unconstrained x"
  by (simp add: required_field_def defaulted_field_def unconstrained_def
        default_factory_now_fst split: arg.splits)

lemma describe_default_nullable_str:
  "map describe (errs (with_default n d (nullable (str_validator None (Some hi))) x)) =
     defaulted_field n LengthError (optional_length hi) x"
  by (auto simp: errs_with_default defaulted_field_def nullable_def str_validator_def describe_def
        with_outer_location_def split: arg.splits option.splits)

lemmas describe_fields =
  describe_required_str describe_required_int describe_required_float
  describe_required_any [where k = TypeError] describe_default_any [where k = TypeError]
  describe_timestamp describe_default_nullable_str

lemma SpaceStation_fields_errs:
  "errs (SpaceStation_fields ts kw) =
     errs (required ''station_id'' (str_validator (Some 3) (Some 10)) (kw_station_id kw))
   @ errs (required ''name'' (str_validator (Some 1) (Some 50)) (SpaceStation_kwargs.kw_name kw))
   @ errs (required ''crew_size'' (int_validator 1 20) (kw_crew_size kw))
   @ errs (required ''power_level'' (float_validator 0 100) (kw_power_level kw))
   @ errs (required ''oxygen_level'' (float_validator 0 100) (kw_oxygen_level kw))
   @ errs (required ''last_maintenance'' any_validator ts)
   @ errs (with_default ''is_operational'' True any_validator (kw_is_operational kw))
   @ errs (with_default ''notes'' None (nullable (str_validator None (Some 200))) (kw_notes kw))"
  unfolding SpaceStation_fields_def Let_def
  by (simp split: sum.split)

lemma SpaceStation_describe:
  "map describe (errs (SpaceStation_fields (fst (default_factory_now (kw_last_maintenance kw) w)) kw))
     = SpaceStation_violations kw"
  by (simp add: SpaceStation_fields_errs SpaceStation_violations_def describe_fields)

lemma SpaceStation_fields_sound: "SpaceStation_fields ts kw \<noteq> Inl []"
  unfolding SpaceStation_fields_def Let_def
  by (auto split: sum.splits)

lemma walk_within:
  "index + length xs \<le> mx \<Longrightarrow>
   validate_iter_to_vec mx v index xs out errors =
     (if errors @ item_errors v index xs = [] then Inr (out @ item_values v xs)
      else Inl (errors @ item_errors v index xs))"
proof (induction xs arbitrary: index out errors)
  case Nil
  then show ?case by simp
next
  case (Cons x xs)
  from Cons.prems have le: "Suc index + length xs \<le> mx" and "\<not> mx < index + 1"
    by simp_all
  then show ?case
    using Cons.IH [where index = "Suc index"] by (cases "v x") simp_all
qed

lemma walk_beyond:
  "mx < index + length xs \<Longrightarrow> index \<le> mx \<Longrightarrow>
   validate_iter_to_vec mx v index xs out errors = Inl [LineError [] Too_long]"
proof (induction xs arbitrary: index out errors)
  case Nil
  then show ?case by simp
next
  case (Cons x xs)
  show ?case
  proof (cases "mx < index + 1")
    case True
    then show ?thesis by simp
  next
    case False
    with Cons.prems have "mx < Suc index + length xs" "Suc index \<le> mx" by simp_all
    with False show ?thesis
      using Cons.IH [where index = "Suc index"] by (cases "v x") simp_all
  qed
qed

lemma item_values_length:
  "(\<And>y. v y \<noteq> Inl []) \<Longrightarrow> item_errors v i xs = [] \<Longrightarrow> length (item_values v xs) = length xs"
proof (induction xs arbitrary: i)
  case Nil
  then show ?case by simp
next
  case (Cons x xs)
  then show ?case by (cases "v x") auto
qed

lemma list_validator_eq:
  assumes "\<And>y. v y \<noteq> Inl []"
  shows "list_validator mn mx v xs =
     (if mx < length xs then Inl [LineError [] Too_long]
      else if item_errors v 0 xs \<noteq> [] then Inl (item_errors v 0 xs)
      else if length xs < mn then Inl [LineError [] Too_short]
      else Inr (item_values v xs))"
proof (cases "mx < length xs")
  case True
  then show ?thesis
    using walk_beyond [where index = 0 and out = "[]" and errors = "[]" and mx = mx and xs = xs and v = v] by (simp add: list_validator_def)
next
  case False
  then have "validate_iter_to_vec mx v 0 xs [] [] =
     (if item_errors v 0 xs = [] then Inr (item_values v xs) else Inl (item_errors v 0 xs))"
    using walk_within [where index = 0 and out = "[]" and errors = "[]" and mx = mx and xs = xs and v = v] by simp
  with False show ?thesis
    using item_values_length [OF assms, where i = 0 and xs = xs] by (simp add: list_validator_def)
qed

lemma list_validator_sound:
  assumes "\<And>y. v y \<noteq> Inl []"
  shows "list_validator mn mx v xs \<noteq> Inl []"
  by (simp add: list_validator_eq [OF assms])

lemma AlienContact_fields_errs:
  "errs (AlienContact_fields ts kw) =
     errs (required ''contact_id'' (str_validator (Some 5) (Some 15)) (kw_contact_id kw))
   @ errs (required ''timestamp'' any_validator ts)
   @ errs (required ''location'' (str_validator (Some 3) (Some 100)) (kw_location kw))
   @ errs (required ''contact_type'' any_validator (kw_contact_type kw))
   @ errs (required ''signal_strength'' (float_validator 0 10) (kw_signal_strength kw))
   @ errs (required ''duration_minutes'' (int_validator 1 1440) (kw_duration_minutes kw))
   @ errs (required ''witness_count'' (int_validator 1 100) (kw_witness_count kw))
   @ errs (with_default ''message_received'' None (nullable (str_validator None (Some 500)))
        (kw_message_received kw))
   @ errs (with_default ''is_verified'' False any_validator (kw_is_verified kw))"
  unfolding AlienContact_fields_def Let_def
  by (simp split: sum.split)

lemma AlienContact_fields_sound: "AlienContact_fields ts kw \<noteq> Inl []"
  unfolding AlienContact_fields_def Let_def
  by (auto split: sum.splits)

lemma AlienContact_describe:
  "map describe (errs (AlienContact_fields (fst (default_factory_now (kw_timestamp kw) w)) kw))
     = AlienContact_violations kw"
  by (simp add: AlienContact_fields_errs AlienContact_violations_def describe_fields)

lemma CrewMember_fields_errs:
  "errs (CrewMember_fields kw) =
     errs (required ''member_id'' (str_validator (Some 3) (Some 10)) (kw_member_id kw))
   @ errs (required ''name'' (str_validator (Some 2) (Some 50)) (CrewMember_kwargs.kw_name kw))
   @ errs (required ''rank'' any_validator (kw_rank kw))
   @ errs (required ''age'' (int_validator 18 80) (kw_age kw))
   @ errs (required ''specialization'' (str_validator (Some 3) (Some 30)) (kw_specialization kw))
   @ errs (required ''years_experience'' (int_validator 0 50) (kw_years_experience kw))
   @ errs (with_default ''is_active'' True any_validator (kw_is_active kw))"
  unfolding CrewMember_fields_def Let_def
  by (simp split: sum.split)

lemma CrewMember_fields_sound [simp]: "CrewMember_fields kw \<noteq> Inl []"
  unfolding CrewMember_fields_def Let_def
  by (auto split: sum.splits)

lemma CrewMember_describe:
  "map describe (errs (CrewMember_fields kw)) = CrewMember_violations kw"
  by (simp add: CrewMember_fields_errs CrewMember_violations_def describe_fields)

lemma CrewMember_validator_sound [simp]: "CrewMember_validator x \<noteq> Inl []"
  by (cases x) simp_all

lemma CrewMember_validator_describe:
  "map describe (errs (CrewMember_validator x)) = item_reported x"
  by (cases x) (simp_all add: CrewMember_describe describe_def)

lemma crew_validator_sound [simp]: "list_validator mn mx CrewMember_validator xs \<noteq> Inl []"
  by (rule list_validator_sound) simp

lemma SpaceMission_fields_errs:
  "errs (SpaceMission_fields ts kw) =
     errs (required ''mission_id'' (str_validator (Some 5) (Some 15)) (kw_mission_id kw))
   @ errs (required ''mission_name'' (str_validator (Some 3) (Some 100)) (kw_mission_name kw))
   @ errs (required ''destination'' (str_validator (Some 3) (Some 50)) (kw_destination kw))
   @ errs (required ''launch_date'' any_validator ts)
   @ errs (required ''duration_days'' (int_validator 1 3650) (kw_duration_days kw))
   @ errs (required ''crew'' (list_validator 1 12 CrewMember_validator) (kw_crew kw))
   @ errs (with_default ''mission_status'' ''planned'' any_validator (kw_mission_status kw))
   @ errs (required ''budget_millions'' (float_validator 1 10000) (kw_budget_millions kw))"
  unfolding SpaceMission_fields_def Let_def
  by (simp split: sum.split)

lemma SpaceMission_fields_sound: "SpaceMission_fields ts kw \<noteq> Inl []"
  unfolding SpaceMission_fields_def Let_def
  by (auto split: sum.splits)

lemma describe_nested:
  "map describe (map (with_outer_location (Key n)) (item_errors CrewMember_validator i xs)) =
     nested_violations n item_reported i xs"
proof (induction xs arbitrary: i)
  case Nil
  then show ?case by simp
next
  case (Cons x xs)
  have "map describe (map (with_outer_location (Key n))
          (map (with_outer_location (Index i)) (errs (CrewMember_validator x)))) =
        map (\<lambda>(l, k). (Key n # Index i # l, k)) (map describe (errs (CrewMember_validator x)))"
    by (simp add: describe_def with_outer_location_def)
  then show ?case
    using Cons.IH [where i = "i + 1"] by (simp add: CrewMember_validator_describe)
qed

lemma nested_violations_Nil:
  "nested_violations n item_reported i xs = [] \<longleftrightarrow> item_errors CrewMember_validator i xs = []"
  using describe_nested [of n i xs] by (metis map_is_Nil_conv)

lemma describe_crew:
  "map describe (errs (required ''crew'' (list_validator 1 12 CrewMember_validator) x)) =
     crew_reported x"
proof (cases x)
  case Absent
  then show ?thesis
    by (simp add: errs_required crew_reported_def describe_def)
next
  case Mistyped
  then show ?thesis
    by (simp add: errs_required crew_reported_def describe_def)
next
  case (Given xs)
  show ?thesis
  proof (cases "12 < length xs")
    case True
    with Given show ?thesis
      by (simp add: errs_required crew_reported_def list_validator_eq describe_def
            with_outer_location_def)
  next
    case le: False
    show ?thesis
    proof (cases "item_errors CrewMember_validator 0 xs = []")
      case True
      then have "nested_violations ''crew'' item_reported 0 xs = []"
        by (simp add: nested_violations_Nil)
      with True Given le show ?thesis
        by (auto simp: errs_required crew_reported_def list_validator_eq describe_def
              with_outer_location_def within_length_def Suc_le_eq)
    next
      case False
      then have "xs \<noteq> []" by auto
      then have "1 \<le> length xs" by (cases xs) simp_all
      with False Given le show ?thesis
        by (simp add: errs_required crew_reported_def list_validator_eq
              describe_nested [unfolded map_map] within_length_def)
    qed
  qed
qed

lemma SpaceMission_describe:
  "map describe (errs (SpaceMission_fields (fst (default_factory_now (kw_launch_date kw) w)) kw))
     = SpaceMission_reported kw"
  by (simp add: SpaceMission_fields_errs SpaceMission_reported_def mission_violations_with_def
        describe_fields describe_crew del: One_nat_def)

lemma SpaceStation_new_fst:
  "fst (SpaceStation_new kw w) =
     no_model_validator
       (SpaceStation_fields (fst (default_factory_now (kw_last_maintenance kw) w)) kw)"
  by (simp add: SpaceStation_new_def split: prod.splits)

lemma AlienContact_new_fst:
  "fst (AlienContact_new kw w) =
     model_validator_after validate_contact
       (AlienContact_fields (fst (default_factory_now (kw_timestamp kw) w)) kw)"
  by (simp add: AlienContact_new_def split: prod.splits)

lemma SpaceMission_new_fst:
  "fst (SpaceMission_new kw w) =
     model_validator_after validate_mission
       (SpaceMission_fields (fst (default_factory_now (kw_launch_date kw) w)) kw)"
  by (simp add: SpaceMission_new_def split: prod.splits)

lemma failed_fields:
  assumes "errs r \<noteq> []"
  shows "model_validator_after f r = Inl (ValidationError (errs r))"
    and "no_model_validator r = Inl (ValidationError (errs r))"
  using assms by (cases r; simp add: model_validator_after_def no_model_validator_def)+

lemma CrewMember_dump_violations:
  "CrewMember_violations (CrewMember_dump m) = [] \<longleftrightarrow> CrewMember_valid m"
  by (simp add: CrewMember_violations_def CrewMember_dump_def CrewMember_valid_def
        required_field_def defaulted_field_def unconstrained_def)

lemma nested_violations_cong:
  "list_all (\<lambda>x. f x = g x) xs \<Longrightarrow> nested_violations n f i xs = nested_violations n g i xs"
  by (induction xs arbitrary: i) simp_all

lemma crew_reported_eq:
  assumes "case x of Given xs \<Rightarrow> length xs \<le> 12
             \<and> list_all (\<lambda>i. case i of Instance m \<Rightarrow> CrewMember_valid m | _ \<Rightarrow> True) xs
           | _ \<Rightarrow> True"
  shows "crew_reported x = crew_violations x"
proof (cases x)
  case (Given xs)
  with assms have le: "length xs \<le> 12"
    and ok: "list_all (\<lambda>i. case i of Instance m \<Rightarrow> CrewMember_valid m | _ \<Rightarrow> True) xs"
    by simp_all
  have "list_all (\<lambda>i. item_reported i = item_violations i) xs"
    using ok
    by (induction xs)
      (auto simp: CrewMember_dump_violations [THEN iffD2, symmetric]
         split: CrewMember_input.splits)
  then have "nested_violations ''crew'' item_reported 0 xs =
      nested_violations ''crew'' item_violations 0 xs"
    by (rule nested_violations_cong)
  with Given le show ?thesis
    by (simp add: crew_reported_def crew_violations_def)
qed (simp_all add: crew_reported_def crew_violations_def)

section \<open>The example inputs, evaluated\<close>

lemma clock_from_reading: "fst (default_factory_now Absent (clock_from t)) = Given t"
  by (simp add: default_factory_now_fst clock_from_def)

lemma main_timestamps:
  "kw_last_maintenance station1 = Absent" "kw_timestamp contact1 = Absent"
  "kw_launch_date mission1 = Absent"
  by code_simp+

lemma station2_violations:
  "SpaceStation_violations station2 = [([Key ''crew_size''], RangeError)]"
  by code_simp

lemma contact_bad_violations:
  "AlienContact_violations contact_bad =
     [([Key ''location''], PresenceError), ([Key ''contact_type''], TypeError),
      ([Key ''signal_strength''], RangeError), ([Key ''witness_count''], RangeError)]"
  by code_simp

lemma member_bad_violations:
  "CrewMember_violations member_bad = [([Key ''member_id''], LengthError), ([Key ''age''], RangeError)]"
  by code_simp

lemma mission_bad_reported:
  "SpaceMission_reported mission_bad =
     [([Key ''duration_days''], RangeError),
      ([Key ''crew'', Index 0, Key ''age''], RangeError),
      ([Key ''crew'', Index 2, Key ''name''], LengthError),
      ([Key ''crew'', Index 2, Key ''rank''], TypeError),
      ([Key ''crew'', Index 2, Key ''years_experience''], RangeError),
      ([Key ''budget_millions''], RangeError)]"
  by code_simp

lemma mission_bad_crew:
  "kw_crew mission_bad = Given crew_bad" "length crew_bad = 3"
  "list_all (\<lambda>i. case i of Instance m \<Rightarrow> CrewMember_valid m | _ \<Rightarrow> True) crew_bad"
  by code_simp+

lemma mission_long_violations:
  "SpaceMission_violations mission_long =
     [([Key ''crew''], LengthError), ([Key ''crew'', Index 0, Key ''age''], RangeError)]"
  by code_simp

lemma mission_long_fields:
  "SpaceMission_fields (Given t) mission_long = Inl [LineError [Key ''crew''] Too_long]"
  by code_simp

lemma mission_long_launch_date: "kw_launch_date mission_long = Absent"
  by code_simp

lemma mission_mutated_violations:
  "SpaceMission_violations mission_mutated = [([Key ''crew'', Index 0, Key ''age''], RangeError)]"
  by code_simp

lemma mission_mutated_fields:
  "kw_launch_date mission_mutated = Absent"
  "SpaceMission_fields (Given 0) mission_mutated = Inr mission_mutated_record"
  "validate_mission mission_mutated_record = Inr mission_mutated_record"
  by code_simp+

section \<open>C1: the field phase reports every violated constraint but those of some crews\<close>

text \<open>
  C1, as amended. For every input of \<^verbatim>\<open>SpaceStation\<close>, \<^verbatim>\<open>AlienContact\<close> and
  \<^verbatim>\<open>CrewMember\<close>, whatever its arguments are, every violated field constraint gives
  exactly one error, in the order of the field declarations. For \<^verbatim>\<open>SpaceMission\<close> the
  errors are, in that order, the violations of the fields and of the items of \<^verbatim>\<open>crew\<close>
  with two exceptions: an item that is already a \<^verbatim>\<open>CrewMember\<close> object contributes no
  error, and a \<^verbatim>\<open>crew\<close> of more than 12 items contributes the single error on its
  length. Where neither exception applies, what is reported is every violation. In all
  four cases a non-empty list of field errors is the whole result, and for the two
  classes with a model validator it is the list of the field phase itself: the model
  validator is not entered.
\<close>

theorem field_errors_aggregated:
  "(SpaceStation_violations kw1 \<noteq> [] \<longrightarrow>
      (\<exists>es. fst (SpaceStation_new kw1 w) = Inl (ValidationError es)
          \<and> map describe es = SpaceStation_violations kw1))
 \<and> (AlienContact_violations kw2 \<noteq> [] \<longrightarrow>
      (\<exists>es. fst (AlienContact_new kw2 w) = Inl (ValidationError es)
          \<and> es = errs (AlienContact_fields (fst (default_factory_now (kw_timestamp kw2) w)) kw2)
          \<and> map describe es = AlienContact_violations kw2))
 \<and> (CrewMember_violations kw3 \<noteq> [] \<longrightarrow>
      (\<exists>es. CrewMember_new kw3 = Inl (ValidationError es)
          \<and> map describe es = CrewMember_violations kw3))
 \<and> (SpaceMission_reported kw4 \<noteq> [] \<longrightarrow>
      (\<exists>es. fst (SpaceMission_new kw4 w) = Inl (ValidationError es)
          \<and> es = errs (SpaceMission_fields (fst (default_factory_now (kw_launch_date kw4) w)) kw4)
          \<and> map describe es = SpaceMission_reported kw4))
 \<and> ((case kw_crew kw4 of
        Given xs \<Rightarrow> length xs \<le> 12
          \<and> list_all (\<lambda>i. case i of Instance m \<Rightarrow> CrewMember_valid m | _ \<Rightarrow> True) xs
      | _ \<Rightarrow> True) \<longrightarrow>
      SpaceMission_reported kw4 = SpaceMission_violations kw4)"
proof (intro conjI impI)
  let ?r = "SpaceStation_fields (fst (default_factory_now (kw_last_maintenance kw1) w)) kw1"
  assume "SpaceStation_violations kw1 \<noteq> []"
  then have "errs ?r \<noteq> []"
    using SpaceStation_describe [of kw1 w] by (metis list.map_disc_iff)
  then have "no_model_validator ?r = Inl (ValidationError (errs ?r))"
    by (rule failed_fields)
  then show "\<exists>es. fst (SpaceStation_new kw1 w) = Inl (ValidationError es)
      \<and> map describe es = SpaceStation_violations kw1"
    by (simp add: SpaceStation_new_fst SpaceStation_describe)
next
  let ?r = "AlienContact_fields (fst (default_factory_now (kw_timestamp kw2) w)) kw2"
  assume "AlienContact_violations kw2 \<noteq> []"
  then have "errs ?r \<noteq> []"
    using AlienContact_describe [of kw2 w] by (metis list.map_disc_iff)
  then have "model_validator_after validate_contact ?r = Inl (ValidationError (errs ?r))"
    by (rule failed_fields)
  then show "\<exists>es. fst (AlienContact_new kw2 w) = Inl (ValidationError es)
      \<and> es = errs ?r \<and> map describe es = AlienContact_violations kw2"
    by (simp add: AlienContact_new_fst AlienContact_describe)
next
  assume "CrewMember_violations kw3 \<noteq> []"
  then have "errs (CrewMember_fields kw3) \<noteq> []"
    using CrewMember_describe [of kw3] by (metis list.map_disc_iff)
  then have "no_model_validator (CrewMember_fields kw3) =
      Inl (ValidationError (errs (CrewMember_fields kw3)))"
    by (rule failed_fields)
  then show "\<exists>es. CrewMember_new kw3 = Inl (ValidationError es)
      \<and> map describe es = CrewMember_violations kw3"
    by (simp add: CrewMember_new_def CrewMember_describe)
next
  let ?r = "SpaceMission_fields (fst (default_factory_now (kw_launch_date kw4) w)) kw4"
  assume "SpaceMission_reported kw4 \<noteq> []"
  then have "errs ?r \<noteq> []"
    using SpaceMission_describe [of kw4 w] by (metis list.map_disc_iff)
  then have "model_validator_after validate_mission ?r = Inl (ValidationError (errs ?r))"
    by (rule failed_fields)
  then show "\<exists>es. fst (SpaceMission_new kw4 w) = Inl (ValidationError es)
      \<and> es = errs ?r \<and> map describe es = SpaceMission_reported kw4"
    by (simp add: SpaceMission_new_fst SpaceMission_describe)
next
  assume "case kw_crew kw4 of
        Given xs \<Rightarrow> length xs \<le> 12
          \<and> list_all (\<lambda>i. case i of Instance m \<Rightarrow> CrewMember_valid m | _ \<Rightarrow> True) xs
      | _ \<Rightarrow> True"
  then have "crew_reported (kw_crew kw4) = crew_violations (kw_crew kw4)"
    by (rule crew_reported_eq)
  then show "SpaceMission_reported kw4 = SpaceMission_violations kw4"
    by (simp add: SpaceMission_reported_def SpaceMission_violations_def
          mission_violations_with_def)
qed


text \<open>The theorem at inputs that violate one, four, two and six constraints; the crew of
  the last has three items, one of them a valid object.\<close>

theorem field_errors_aggregated_witness:
  "SpaceStation_violations station2 \<noteq> []
 \<and> (\<exists>es. fst (SpaceStation_new station2 (clock_from 0)) = Inl (ValidationError es)
        \<and> map describe es = [([Key ''crew_size''], RangeError)])
 \<and> AlienContact_violations contact_bad \<noteq> []
 \<and> (\<exists>es. fst (AlienContact_new contact_bad (clock_from 0)) = Inl (ValidationError es)
        \<and> map describe es =
            [([Key ''location''], PresenceError), ([Key ''contact_type''], TypeError),
             ([Key ''signal_strength''], RangeError), ([Key ''witness_count''], RangeError)])
 \<and> CrewMember_violations member_bad \<noteq> []
 \<and> (\<exists>es. CrewMember_new member_bad = Inl (ValidationError es)
        \<and> map describe es = [([Key ''member_id''], LengthError), ([Key ''age''], RangeError)])
 \<and> SpaceMission_reported mission_bad \<noteq> []
 \<and> (\<exists>es. fst (SpaceMission_new mission_bad (clock_from 0)) = Inl (ValidationError es)
        \<and> map describe es =
            [([Key ''duration_days''], RangeError),
             ([Key ''crew'', Index 0, Key ''age''], RangeError),
             ([Key ''crew'', Index 2, Key ''name''], LengthError),
             ([Key ''crew'', Index 2, Key ''rank''], TypeError),
             ([Key ''crew'', Index 2, Key ''years_experience''], RangeError),
             ([Key ''budget_millions''], RangeError)])
 \<and> kw_crew mission_bad = Given crew_bad \<and> length crew_bad \<le> 12
 \<and> list_all (\<lambda>i. case i of Instance m \<Rightarrow> CrewMember_valid m | _ \<Rightarrow> True) crew_bad
 \<and> SpaceMission_violations mission_bad =
      [([Key ''duration_days''], RangeError),
       ([Key ''crew'', Index 0, Key ''age''], RangeError),
       ([Key ''crew'', Index 2, Key ''name''], LengthError),
       ([Key ''crew'', Index 2, Key ''rank''], TypeError),
       ([Key ''crew'', Index 2, Key ''years_experience''], RangeError),
       ([Key ''budget_millions''], RangeError)]"
  using field_errors_aggregated [of station2 "clock_from 0" contact_bad member_bad mission_bad]
  by (auto simp: station2_violations contact_bad_violations member_bad_violations
        mission_bad_reported mission_bad_crew)

text \<open>
  C1 as stated fails on two inputs of \<^verbatim>\<open>SpaceMission\<close>. The crew of fourteen mappings
  whose first member is five years old violates two constraints, and one error is
  reported. The first mission of \<^verbatim>\<open>main\<close>, after the assignment \<^verbatim>\<open>age = 5\<close> on its
  first crew member, violates one constraint, and the constructor returns the mission.
\<close>

theorem crew_violations_not_all_reported:
  "SpaceMission_violations mission_long =
     [([Key ''crew''], LengthError), ([Key ''crew'', Index 0, Key ''age''], RangeError)]
 \<and> fst (SpaceMission_new mission_long (clock_from 0)) =
     Inl (ValidationError [LineError [Key ''crew''] Too_long])
 \<and> SpaceMission_violations mission_mutated =
     [([Key ''crew'', Index 0, Key ''age''], RangeError)]
 \<and> fst (SpaceMission_new mission_mutated (clock_from 0)) = Inr mission_mutated_record"
  by (simp add: mission_long_violations mission_long_fields mission_long_launch_date
        mission_mutated_violations mission_mutated_fields SpaceMission_new_fst
        clock_from_reading model_validator_after_def)

section \<open>C2: the rule phase stops at the first failing rule\<close>

text \<open>The model validators are the rule lists of the specification, run to the first
  failure.\<close>

lemma validate_contact_rules: "validate_contact c = first_failure contact_rules c"
  by (simp add: validate_contact_def contact_rules_def)

lemma validate_mission_rules: "validate_mission m = first_failure mission_rules m"
  by (auto simp: validate_mission_def mission_rules_def Let_def list_ex_iff senior_ranks_def
        experienced_fraction_def inactive_names_def filter_empty_conv not_less)

lemma first_failure_at:
  "i < length rs \<Longrightarrow> (rs ! i) x = Some e \<Longrightarrow> \<forall>r \<in> set (take i rs). r x = None \<Longrightarrow>
   first_failure rs x = Inl e"
proof (induction rs arbitrary: i)
  case Nil
  then show ?case by simp
next
  case (Cons r rs)
  then show ?case by (cases i) auto
qed

lemma first_failure_prefix:
  assumes "i < length rs" "(rs ! i) x = Some e" "\<forall>r \<in> set (take i rs). r x = None"
  shows "first_failure (take (Suc i) rs) x = first_failure rs x"
proof -
  have "first_failure (take (Suc i) rs) x = Inl e"
    using assms by (intro first_failure_at [where i = i]) (simp_all add: min_def)
  with assms show ?thesis by (simp add: first_failure_at)
qed

lemma contact_rules_distinct:
  assumes "i < j" "j < length contact_rules"
    "(contact_rules ! i) c = Some (ValueError a)" "(contact_rules ! j) c = Some (ValueError b)"
  shows "a \<noteq> b"
proof -
  from assms(1,2) have "j < 4" by (simp add: contact_rules_def)
  with assms(1) consider "i = 0" "j = 1" | "i = 0" "j = 2" | "i = 0" "j = 3"
    | "i = 1" "j = 2" | "i = 1" "j = 3" | "i = 2" "j = 3"
    by linarith
  then show ?thesis
    using assms(3,4) by cases (auto simp: contact_rules_def split: if_splits)
qed

lemma mission_rules_distinct:
  assumes "i < j" "j < length mission_rules"
    "(mission_rules ! i) c = Some (ValueError a)" "(mission_rules ! j) c = Some (ValueError b)"
  shows "a \<noteq> b"
proof -
  from assms(1,2) have "j < 4" by (simp add: mission_rules_def)
  with assms(1) consider "i = 0" "j = 1" | "i = 0" "j = 2" | "i = 0" "j = 3"
    | "i = 1" "j = 2" | "i = 1" "j = 3" | "i = 2" "j = 3"
    by linarith
  then show ?thesis
    using assms(3,4) by cases (auto simp: mission_rules_def split: if_splits)
qed


lemma value_error_wrapped:
  "f c = Inl (ValueError a) \<Longrightarrow>
   model_validator_after f (Inr c) = Inl (ValidationError [LineError [] (Value_error a)])"
  by (simp add: model_validator_after_def)

lemma contact_two_rules_fields: "AlienContact_fields (Given 0) contact_two_rules = Inr contact_two_rules_record"
  by code_simp

lemma contact_two_rules_eval:
  "(contact_rules ! 2) contact_two_rules_record = Some (ValueError [Lit ''Telepathic contact requires at least 3 witnesses''])"
  "(contact_rules ! 3) contact_two_rules_record = Some (ValueError [Lit ''Strong signals (> 7.0) should include received messages''])"
  "\<forall>r \<in> set (take 2 contact_rules). r contact_two_rules_record = None"
  "length contact_rules = 4"
  by code_simp+

lemma mission_two_rules_fields: "SpaceMission_fields (Given 0) mission_two_rules = Inr mission_two_rules_record"
  by code_simp

lemma mission_two_rules_eval:
  "(mission_rules ! 1) mission_two_rules_record = Some (ValueError [Lit ''Mission must have at least one Commander or Captain''])"
  "(mission_rules ! 3) mission_two_rules_record = Some (ValueError [Lit ''All crew members must be active. Inactive members: '', ReprStrList [''Bob'']])"
  "\<forall>r \<in> set (take 1 mission_rules). r mission_two_rules_record = None"
  "length mission_rules = 4"
  by code_simp+

lemma two_rules_timestamps:
  "kw_timestamp contact_two_rules = Absent" "kw_launch_date mission_two_rules = Absent"
  by code_simp+


text \<open>
  C2. For \<^verbatim>\<open>AlienContact\<close> and for \<^verbatim>\<open>SpaceMission\<close>: when the input passes the field
  phase and the record violates the rules at positions \<open>i < j\<close> of the rule list, all
  rules before \<open>i\<close> passing, the constructor fails with exactly one error, the one of
  rule \<open>i\<close>. The error of rule \<open>j\<close> is a different one, so it is not reported, and the
  outcome of the model validator is that of the rules up to position \<open>i\<close> alone: no
  later rule takes part in it.
\<close>

theorem rule_phase_fail_fast:
  "(AlienContact_fields (fst (default_factory_now (kw_timestamp kw) w)) kw = Inr c
      \<and> i < j \<and> j < length contact_rules
      \<and> (contact_rules ! i) c = Some (ValueError a)
      \<and> (contact_rules ! j) c = Some (ValueError b)
      \<and> (\<forall>r \<in> set (take i contact_rules). r c = None)
    \<longrightarrow> fst (AlienContact_new kw w) = Inl (ValidationError [LineError [] (Value_error a)])
        \<and> a \<noteq> b
        \<and> validate_contact c = first_failure (take (Suc i) contact_rules) c)
 \<and> (SpaceMission_fields (fst (default_factory_now (kw_launch_date kw') w')) kw' = Inr m
      \<and> i' < j' \<and> j' < length mission_rules
      \<and> (mission_rules ! i') m = Some (ValueError a')
      \<and> (mission_rules ! j') m = Some (ValueError b')
      \<and> (\<forall>r \<in> set (take i' mission_rules). r m = None)
    \<longrightarrow> fst (SpaceMission_new kw' w') = Inl (ValidationError [LineError [] (Value_error a')])
        \<and> a' \<noteq> b'
        \<and> validate_mission m = first_failure (take (Suc i') mission_rules) m)"
proof (intro conjI impI; elim conjE)
  assume f: "AlienContact_fields (fst (default_factory_now (kw_timestamp kw) w)) kw = Inr c"
    and ij: "i < j" "j < length contact_rules"
    and ri: "(contact_rules ! i) c = Some (ValueError a)"
    and rj: "(contact_rules ! j) c = Some (ValueError b)"
    and before: "\<forall>r \<in> set (take i contact_rules). r c = None"
  from ij have i: "i < length contact_rules" by simp
  have v: "validate_contact c = Inl (ValueError a)"
    using first_failure_at [OF i ri before] by (simp add: validate_contact_rules)
  show "fst (AlienContact_new kw w) = Inl (ValidationError [LineError [] (Value_error a)])"
    using f value_error_wrapped [where f = validate_contact and c = c, OF v]
    by (simp add: AlienContact_new_fst)
  show "a \<noteq> b"
    using ij ri rj by (rule contact_rules_distinct)
  show "validate_contact c = first_failure (take (Suc i) contact_rules) c"
    using first_failure_prefix [OF i ri before] by (simp add: validate_contact_rules)
next
  assume f: "SpaceMission_fields (fst (default_factory_now (kw_launch_date kw') w')) kw' = Inr m"
    and ij: "i' < j'" "j' < length mission_rules"
    and ri: "(mission_rules ! i') m = Some (ValueError a')"
    and rj: "(mission_rules ! j') m = Some (ValueError b')"
    and before: "\<forall>r \<in> set (take i' mission_rules). r m = None"
  from ij have i: "i' < length mission_rules" by simp
  have v: "validate_mission m = Inl (ValueError a')"
    using first_failure_at [OF i ri before] by (simp add: validate_mission_rules)
  show "fst (SpaceMission_new kw' w') = Inl (ValidationError [LineError [] (Value_error a')])"
    using f value_error_wrapped [where f = validate_mission and c = m, OF v]
    by (simp add: SpaceMission_new_fst)
  show "a' \<noteq> b'"
    using ij ri rj by (rule mission_rules_distinct)
  show "validate_mission m = first_failure (take (Suc i') mission_rules) m"
    using first_failure_prefix [OF i ri before] by (simp add: validate_mission_rules)
qed


text \<open>The theorem at a contact that violates rules 2 and 3 and at a mission that
  violates rules 1 and 3 (positions counted from 0).\<close>

theorem rule_phase_fail_fast_witness:
  "AlienContact_fields (fst (default_factory_now (kw_timestamp contact_two_rules) (clock_from 0)))
      contact_two_rules = Inr contact_two_rules_record
 \<and> (2::nat) < 3 \<and> 3 < length contact_rules
 \<and> (contact_rules ! 2) contact_two_rules_record =
      Some (ValueError [Lit ''Telepathic contact requires at least 3 witnesses''])
 \<and> (contact_rules ! 3) contact_two_rules_record =
      Some (ValueError [Lit ''Strong signals (> 7.0) should include received messages''])
 \<and> fst (AlienContact_new contact_two_rules (clock_from 0)) =
      Inl (ValidationError
        [LineError [] (Value_error [Lit ''Telepathic contact requires at least 3 witnesses''])])
 \<and> SpaceMission_fields (fst (default_factory_now (kw_launch_date mission_two_rules) (clock_from 0)))
      mission_two_rules = Inr mission_two_rules_record
 \<and> (1::nat) < 3 \<and> 3 < length mission_rules
 \<and> (mission_rules ! 1) mission_two_rules_record =
      Some (ValueError [Lit ''Mission must have at least one Commander or Captain''])
 \<and> (mission_rules ! 3) mission_two_rules_record =
      Some (ValueError [Lit ''All crew members must be active. Inactive members: '',
                        ReprStrList [''Bob'']])
 \<and> fst (SpaceMission_new mission_two_rules (clock_from 0)) =
      Inl (ValidationError
        [LineError [] (Value_error [Lit ''Mission must have at least one Commander or Captain''])])"
  using rule_phase_fail_fast
    [of contact_two_rules "clock_from 0" contact_two_rules_record 2 3
        "[Lit ''Telepathic contact requires at least 3 witnesses'']"
        "[Lit ''Strong signals (> 7.0) should include received messages'']"
        mission_two_rules "clock_from 0" mission_two_rules_record 1 3
        "[Lit ''Mission must have at least one Commander or Captain'']"
        "[Lit ''All crew members must be active. Inactive members: '', ReprStrList [''Bob'']]"]
  by (simp add: two_rules_timestamps clock_from_reading
        contact_two_rules_fields contact_two_rules_eval
        mission_two_rules_fields mission_two_rules_eval del: One_nat_def)


section \<open>C3: the errors of a crew member carry the member's index\<close>

lemma nested_violations_at:
  "filter (\<lambda>v. take 2 (fst v) = [Key n, Index i]) (nested_violations n f j xs) =
     (if j \<le> i \<and> i < j + length xs
      then map (\<lambda>(l, k). (Key n # Index i # l, k)) (f (xs ! (i - j))) else [])"
proof (induction xs arbitrary: j)
  case Nil
  then show ?case by auto
next
  case (Cons x xs)
  have hd: "filter (\<lambda>v. take 2 (fst v) = [Key n, Index i])
              (map (\<lambda>(l, k). (Key n # Index j # l, k)) (f x)) =
            (if j = i then map (\<lambda>(l, k). (Key n # Index i # l, k)) (f x) else [])"
    by (induction "f x") (auto simp: filter_empty_conv split: prod.splits)
  show ?case
  proof (cases "j = i")
    case True
    then show ?thesis using hd Cons.IH [of "j + 1"] by simp
  next
    case False
    then have "i - j = Suc (i - (j + 1))" if "j \<le> i" using that by simp
    with False show ?thesis using hd Cons.IH [of "j + 1"] by auto
  qed
qed

lemma required_field_not_nested [simp]:
  "filter (\<lambda>v. take 2 (fst v) = [Key n, Index i]) (required_field m k ok x) = []"
  by (simp add: required_field_def split: arg.splits)

lemma defaulted_field_not_nested [simp]:
  "filter (\<lambda>v. take 2 (fst v) = [Key n, Index i]) (defaulted_field m k ok x) = []"
  by (simp add: defaulted_field_def split: arg.splits)

lemma crew_reported_at:
  "length xs \<le> 12 \<Longrightarrow>
   filter (\<lambda>v. take 2 (fst v) = [Key ''crew'', Index i]) (crew_reported (Given xs)) =
     (if i < length xs
      then map (\<lambda>(l, k). (Key ''crew'' # Index i # l, k)) (item_reported (xs ! i)) else [])"
  by (simp add: crew_reported_def nested_violations_at)

lemma SpaceMission_reported_at:
  "kw_crew kw = Given xs \<Longrightarrow> length xs \<le> 12 \<Longrightarrow> i < length xs \<Longrightarrow>
   filter (\<lambda>v. take 2 (fst v) = [Key ''crew'', Index i]) (SpaceMission_reported kw) =
     map (\<lambda>(l, k). (Key ''crew'' # Index i # l, k)) (item_reported (xs ! i))"
  by (simp add: SpaceMission_reported_def mission_violations_with_def crew_reported_at)

lemma required_field_kind:
  "k \<noteq> RuleError \<Longrightarrow> \<forall>v \<in> set (required_field m k ok x). snd v \<noteq> RuleError"
  by (simp add: required_field_def split: arg.splits)

lemma defaulted_field_kind:
  "k \<noteq> RuleError \<Longrightarrow> \<forall>v \<in> set (defaulted_field m k ok x). snd v \<noteq> RuleError"
  by (simp add: defaulted_field_def split: arg.splits)

lemma CrewMember_violations_kind: "\<forall>v \<in> set (CrewMember_violations kw). snd v \<noteq> RuleError"
  unfolding CrewMember_violations_def set_append ball_Un
  by (intro conjI required_field_kind defaulted_field_kind) simp_all

lemma item_reported_kind: "\<forall>v \<in> set (item_reported x). snd v \<noteq> RuleError"
  using CrewMember_violations_kind by (cases x) auto

lemma nested_violations_kind:
  "\<forall>v \<in> set (nested_violations n item_reported j xs). snd v \<noteq> RuleError"
proof (induction xs arbitrary: j)
  case Nil
  then show ?case by simp
next
  case (Cons x xs)
  then show ?case
    using item_reported_kind [of x] by (auto simp: ball_Un)
qed

lemma crew_reported_kind: "\<forall>v \<in> set (crew_reported x). snd v \<noteq> RuleError"
  using nested_violations_kind [of "''crew''" 0]
  by (cases x) (simp_all add: crew_reported_def ball_Un)

lemma SpaceMission_reported_kind: "\<forall>v \<in> set (SpaceMission_reported kw). snd v \<noteq> RuleError"
  unfolding SpaceMission_reported_def mission_violations_with_def set_append ball_Un
  by (intro conjI required_field_kind defaulted_field_kind crew_reported_kind) simp_all

lemma crew_item_reported:
  assumes "kw_crew kw = Given xs" "length xs \<le> 12" "i < length xs"
    "item_reported (xs ! i) \<noteq> []"
  shows "SpaceMission_reported kw \<noteq> []"
  using SpaceMission_reported_at [OF assms(1,2,3)] assms(4) by force

lemma crew_bad_eval:
  "kw_crew mission_bad = Given crew_bad" "length crew_bad = 3"
  "item_reported (crew_bad ! 2) =
     [([Key ''name''], LengthError), ([Key ''rank''], TypeError),
      ([Key ''years_experience''], RangeError)]"
  by code_simp+

lemma crew_long_eval:
  "kw_crew mission_long = Given crew_long" "length crew_long = 14"
  "item_violations (crew_long ! 0) = [([Key ''age''], RangeError)]"
  by code_simp+

lemma crew_mutated_eval:
  "kw_crew mission_mutated = Given crew_mutated" "length crew_mutated = 3"
  "item_violations (crew_mutated ! 0) = [([Key ''age''], RangeError)]"
  by code_simp+

text \<open>
  C3, as amended. When \<^verbatim>\<open>crew\<close> has at most 12 items and the item at index \<open>i\<close> is
  one whose violations are reported, that is a mapping that violates a constraint of
  \<^verbatim>\<open>CrewMember\<close> (a bound, a missing field, a value of another type such as a rank
  that is no member of the enum) or a value that is neither a mapping nor a
  \<^verbatim>\<open>CrewMember\<close>, the constructor of \<^verbatim>\<open>SpaceMission\<close> fails with the errors of the
  field phase and nothing else: the errors whose location starts with \<^verbatim>\<open>crew\<close> and
  \<open>i\<close> are the violations of that item, there is at least one of them, and no error
  comes from \<^verbatim>\<open>validate_mission\<close>.
\<close>

theorem crew_item_error_tagged:
  "kw_crew kw = Given xs \<and> length xs \<le> 12 \<and> i < length xs
     \<and> item_reported (xs ! i) \<noteq> [] \<longrightarrow>
   (\<exists>es. fst (SpaceMission_new kw w) = Inl (ValidationError es)
      \<and> es = errs (SpaceMission_fields (fst (default_factory_now (kw_launch_date kw) w)) kw)
      \<and> filter (\<lambda>v. take 2 (fst v) = [Key ''crew'', Index i]) (map describe es) =
          map (\<lambda>(l, k). (Key ''crew'' # Index i # l, k)) (item_reported (xs ! i))
      \<and> (\<exists>e \<in> set es. take 2 (loc e) = [Key ''crew'', Index i])
      \<and> (\<forall>e \<in> set es. kind_of (etype e) \<noteq> RuleError))"
proof (intro impI; elim conjE)
  let ?r = "SpaceMission_fields (fst (default_factory_now (kw_launch_date kw) w)) kw"
  assume crew: "kw_crew kw = Given xs" and le: "length xs \<le> 12" and i: "i < length xs"
    and bad: "item_reported (xs ! i) \<noteq> []"
  have d: "map describe (errs ?r) = SpaceMission_reported kw"
    by (rule SpaceMission_describe)
  have "SpaceMission_reported kw \<noteq> []"
    using crew le i bad by (rule crew_item_reported)
  with d have "errs ?r \<noteq> []" by (metis list.map_disc_iff)
  then have res: "model_validator_after validate_mission ?r = Inl (ValidationError (errs ?r))"
    by (rule failed_fields)
  have at: "filter (\<lambda>v. take 2 (fst v) = [Key ''crew'', Index i]) (map describe (errs ?r)) =
      map (\<lambda>(l, k). (Key ''crew'' # Index i # l, k)) (item_reported (xs ! i))"
    unfolding d using crew le i by (rule SpaceMission_reported_at)
  with bad have "filter (\<lambda>v. take 2 (fst v) = [Key ''crew'', Index i]) (map describe (errs ?r)) \<noteq> []"
    by simp
  then have tagged: "\<exists>e \<in> set (errs ?r). take 2 (loc e) = [Key ''crew'', Index i]"
    by (auto simp: filter_empty_conv describe_def)
  have kinds: "\<forall>e \<in> set (errs ?r). kind_of (etype e) \<noteq> RuleError"
  proof
    fix e assume "e \<in> set (errs ?r)"
    then have "describe e \<in> set (SpaceMission_reported kw)"
      using d by (metis image_eqI set_map)
    then show "kind_of (etype e) \<noteq> RuleError"
      using SpaceMission_reported_kind [of kw] by (auto simp: describe_def)
  qed
  from res at tagged kinds
  show "\<exists>es. fst (SpaceMission_new kw w) = Inl (ValidationError es)
      \<and> es = errs ?r
      \<and> filter (\<lambda>v. take 2 (fst v) = [Key ''crew'', Index i]) (map describe es) =
          map (\<lambda>(l, k). (Key ''crew'' # Index i # l, k)) (item_reported (xs ! i))
      \<and> (\<exists>e \<in> set es. take 2 (loc e) = [Key ''crew'', Index i])
      \<and> (\<forall>e \<in> set es. kind_of (etype e) \<noteq> RuleError)"
    by (simp add: SpaceMission_new_fst)
qed

text \<open>The theorem at the third item (index 2) of a crew of three, a mapping with a name
  that is too short, a rank that is no member of the enum and too many years of
  experience.\<close>

theorem crew_item_error_tagged_witness:
  "kw_crew mission_bad = Given crew_bad \<and> length crew_bad \<le> 12 \<and> 2 < length crew_bad
 \<and> item_reported (crew_bad ! 2) \<noteq> []
 \<and> (\<exists>es. fst (SpaceMission_new mission_bad (clock_from 0)) = Inl (ValidationError es)
      \<and> filter (\<lambda>v. take 2 (fst v) = [Key ''crew'', Index 2]) (map describe es) =
          [([Key ''crew'', Index 2, Key ''name''], LengthError),
           ([Key ''crew'', Index 2, Key ''rank''], TypeError),
           ([Key ''crew'', Index 2, Key ''years_experience''], RangeError)])"
  using crew_item_error_tagged [of mission_bad crew_bad 2 "clock_from 0"]
  by (auto simp: crew_bad_eval)

text \<open>
  C3 as stated fails on two inputs. The first of fourteen members given as mappings is
  five years old, and the only error is the one on the length of \<^verbatim>\<open>crew\<close>, which
  carries no index. The first member of the crew of \<^verbatim>\<open>main\<close> is five years old after
  the assignment \<^verbatim>\<open>age = 5\<close>, and the constructor returns the mission without any
  error, its model validator having run.
\<close>

theorem crew_item_error_not_tagged:
  "kw_crew mission_long = Given crew_long
 \<and> item_violations (crew_long ! 0) = [([Key ''age''], RangeError)]
 \<and> fst (SpaceMission_new mission_long (clock_from 0)) =
     Inl (ValidationError [LineError [Key ''crew''] Too_long])
 \<and> kw_crew mission_mutated = Given crew_mutated
 \<and> item_violations (crew_mutated ! 0) = [([Key ''age''], RangeError)]
 \<and> fst (SpaceMission_new mission_mutated (clock_from 0)) = Inr mission_mutated_record"
  by (simp add: crew_long_eval crew_mutated_eval mission_long_fields mission_long_launch_date
        mission_mutated_fields SpaceMission_new_fst clock_from_reading
        model_validator_after_def)

section \<open>C4: constructed records are valid when they are constructed\<close>

lemma first_failure_Inr:
  "first_failure rs x = Inr y \<longleftrightarrow> y = x \<and> list_all (\<lambda>r. r x = None) rs"
  by (induction rs) (auto split: option.splits)

lemma nullable_str_Inr:
  "nullable (str_validator None (Some hi)) x = Inr r \<longleftrightarrow> r = x \<and> optional_length hi x"
  by (cases x) (auto simp: nullable_def str_validator_def split: sum.splits)

lemma with_default_nullable_valid:
  "with_default n None (nullable (str_validator None (Some hi))) x = Inr r \<Longrightarrow> optional_length hi r"
  by (cases x) (auto simp: with_default_def nullable_str_Inr split: sum.splits)

lemma required_str_valid:
  "required n (str_validator (Some lo) (Some hi)) x = Inr r \<Longrightarrow> within_length lo hi (length r)"
  by (auto simp: required_Inr str_validator_Inr within_length_def)

lemma required_int_valid:
  "required n (int_validator lo hi) x = Inr r \<Longrightarrow> within_range lo hi r"
  by (auto simp: required_Inr int_validator_Inr within_range_def)

lemma required_float_valid:
  "required n (float_validator lo hi) x = Inr r \<Longrightarrow> within_float_range lo hi r"
  by (auto simp: required_Inr float_validator_Inr)

lemma SpaceStation_fields_valid:
  "SpaceStation_fields t kw = Inr s \<Longrightarrow> SpaceStation_valid s"
  unfolding SpaceStation_fields_def Let_def SpaceStation_valid_def
  by (auto split: sum.splits
        dest: required_str_valid required_int_valid required_float_valid
          with_default_nullable_valid)

lemma AlienContact_fields_valid:
  "AlienContact_fields t kw = Inr c \<Longrightarrow>
     within_length 5 15 (length (contact_id c))
   \<and> within_length 3 100 (length (location c))
   \<and> within_float_range 0 10 (signal_strength c)
   \<and> within_range 1 1440 (duration_minutes c)
   \<and> within_range 1 100 (witness_count c)
   \<and> optional_length 500 (message_received c)"
  unfolding AlienContact_fields_def Let_def
  by (auto split: sum.splits
        dest: required_str_valid required_int_valid required_float_valid
          with_default_nullable_valid)

lemma CrewMember_fields_valid:
  "CrewMember_fields kw = Inr m \<Longrightarrow> CrewMember_valid m"
  unfolding CrewMember_fields_def Let_def CrewMember_valid_def
  by (auto split: sum.splits dest: required_str_valid required_int_valid)

lemma model_validator_after_Inr:
  "model_validator_after f r = Inr y \<longleftrightarrow> (\<exists>x. r = Inr x \<and> f x = Inr y)"
  by (auto simp: model_validator_after_def split: sum.splits exn.splits)

lemma no_model_validator_Inr: "no_model_validator r = Inr y \<longleftrightarrow> r = Inr y"
  by (auto simp: no_model_validator_def split: sum.splits)

lemma member_accepted_iff:
  "member_accepted x c \<longleftrightarrow> CrewMember_validator x = Inr c"
  by (cases x) (auto simp: CrewMember_new_def no_model_validator_Inr)

lemma member_accepted_valid:
  "member_accepted x c \<Longrightarrow> x = Instance c \<or> CrewMember_valid c"
  by (cases x) (auto simp: CrewMember_new_def no_model_validator_Inr dest: CrewMember_fields_valid)

lemma item_values_accepted:
  "item_errors CrewMember_validator i xs = [] \<Longrightarrow>
   list_all2 member_accepted xs (item_values CrewMember_validator xs)"
proof (induction xs arbitrary: i)
  case Nil
  then show ?case by simp
next
  case (Cons x xs)
  then show ?case
    by (cases "CrewMember_validator x") (auto simp: member_accepted_iff)
qed

lemma crew_validator_valid:
  assumes "required n (list_validator mn mx CrewMember_validator) x = Inr ms"
  shows "within_length mn mx (length ms)
       \<and> (\<exists>xs. x = Given xs \<and> list_all2 member_accepted xs ms)"
proof -
  from assms obtain xs where xs: "x = Given xs"
      "list_validator mn mx CrewMember_validator xs = Inr ms"
    by (auto simp: required_Inr)
  then have *: "ms = item_values CrewMember_validator xs"
      "item_errors CrewMember_validator 0 xs = []" "\<not> mx < length xs" "\<not> length xs < mn"
    by (auto simp: list_validator_eq split: if_splits)
  then have acc: "list_all2 member_accepted xs ms"
    using item_values_accepted [of 0 xs] by simp
  then have "length ms = length xs"
    by (simp add: list_all2_lengthD)
  with * acc xs show ?thesis
    by (simp add: within_length_def)
qed

lemma SpaceMission_fields_valid:
  "SpaceMission_fields t kw = Inr m \<Longrightarrow>
     within_length 5 15 (length (mission_id m))
   \<and> within_length 3 100 (length (mission_name m))
   \<and> within_length 3 50 (length (destination m))
   \<and> within_range 1 3650 (duration_days m)
   \<and> within_length 1 12 (length (crew m))
   \<and> (\<exists>xs. kw_crew kw = Given xs \<and> list_all2 member_accepted xs (crew m))
   \<and> within_float_range 1 10000 (budget_millions m)"
  unfolding SpaceMission_fields_def Let_def
  by (auto split: sum.splits
        dest: required_str_valid required_int_valid required_float_valid crew_validator_valid)

lemma station1_fields: "SpaceStation_fields (Given 0) station1 = Inr station1_record"
  by code_simp

lemma contact1_fields: "AlienContact_fields (Given 0) contact1 = Inr contact1_record"
  by code_simp

lemma contact1_rules: "validate_contact contact1_record = Inr contact1_record"
  by code_simp

lemma sarah_fields: "CrewMember_fields sarah = Inr sarah_record"
  by code_simp

lemma mission1_fields: "SpaceMission_fields (Given 0) mission1 = Inr mission1_record"
  by code_simp

lemma mission1_rules: "validate_mission mission1_record = Inr mission1_record"
  by code_simp

lemma mission_mixed_fields:
  "kw_launch_date mission_mixed = Absent" "kw_crew mission_mixed = Given crew_mixed"
  "SpaceMission_fields (Given 0) mission_mixed = Inr mission1_record"
  by code_simp+

lemma main_constructed:
  "fst (SpaceStation_new station1 (clock_from 0)) = Inr station1_record"
  "fst (AlienContact_new contact1 (clock_from 0)) = Inr contact1_record"
  "CrewMember_new sarah = Inr sarah_record"
  "fst (SpaceMission_new mission1 (clock_from 0)) = Inr mission1_record"
  "fst (SpaceMission_new mission_mixed (clock_from 0)) = Inr mission1_record"
  by (simp_all add: SpaceStation_new_fst AlienContact_new_fst SpaceMission_new_fst
        CrewMember_new_def main_timestamps clock_from_reading station1_fields contact1_fields
        contact1_rules sarah_fields mission1_fields mission1_rules mission_mixed_fields
        no_model_validator_def model_validator_after_def)

lemma main_records_valid:
  "SpaceStation_valid station1_record" "AlienContact_valid contact1_record"
  "CrewMember_valid sarah_record" "SpaceMission_valid mission1_record"
  "list_all2 member_accepted crew_mixed (crew mission1_record)"
  "list_all2 (\<lambda>x c. x = Instance c \<or> CrewMember_valid c) crew_mixed (crew mission1_record)"
  by code_simp+

lemma assignments_stored:
  "SpaceStation_setattr station1_record (Crew_size 155) =
     Inr (SpaceStation_assign (Crew_size 155) station1_record)"
  "AlienContact_setattr contact1_record (Signal_strength (Finite 11)) =
     Inr (AlienContact_assign (Signal_strength (Finite 11)) contact1_record)"
  "CrewMember_setattr sarah_record (Age 5) = Inr (CrewMember_assign (Age 5) sarah_record)"
  "SpaceMission_setattr mission1_record (Duration_days 0) =
     Inr (SpaceMission_assign (Duration_days 0) mission1_record)"
  by code_simp+

lemma assignments_break:
  "\<not> SpaceStation_valid (SpaceStation_assign (Crew_size 155) station1_record)"
  "\<not> AlienContact_valid (AlienContact_assign (Signal_strength (Finite 11)) contact1_record)"
  "\<not> CrewMember_valid (CrewMember_assign (Age 5) sarah_record)"
  "\<not> SpaceMission_valid (SpaceMission_assign (Duration_days 0) mission1_record)"
  by code_simp+

lemma mission_mutated_constructed:
  "fst (SpaceMission_new mission_mutated (clock_from 0)) = Inr mission_mutated_record"
  by (simp add: mission_mutated_fields SpaceMission_new_fst clock_from_reading
        model_validator_after_def)

lemma mission_mutated_crew:
  "crew mission_mutated_record ! 0 = CrewMember_assign (Age 5) sarah_record"
  by code_simp

text \<open>
  C4, as amended. A record returned by one of the four constructors satisfies, at that
  moment, the field constraints and the rules of its schema. For a mission this is said
  of its own fields and rules; each member of its crew is accepted from the item given
  at the same position: it is the record that the constructor of \<^verbatim>\<open>CrewMember\<close>
  builds from a mapping, or it is the object that was passed, and it satisfies the
  constraints of \<^verbatim>\<open>CrewMember\<close> unless it is such an object.
\<close>

theorem constructed_records_valid:
  "(fst (SpaceStation_new kw1 w) = Inr s \<longrightarrow> SpaceStation_valid s)
 \<and> (fst (AlienContact_new kw2 w) = Inr c \<longrightarrow> AlienContact_valid c)
 \<and> (CrewMember_new kw3 = Inr cm \<longrightarrow> CrewMember_valid cm)
 \<and> (fst (SpaceMission_new kw4 w) = Inr m \<longrightarrow>
      SpaceMission_valid m
    \<and> (\<exists>xs. kw_crew kw4 = Given xs
          \<and> list_all2 member_accepted xs (crew m)
          \<and> list_all2 (\<lambda>x c. x = Instance c \<or> CrewMember_valid c) xs (crew m)))"
proof -
  have station: "SpaceStation_valid s" if "fst (SpaceStation_new kw1 w) = Inr s"
    using that
    by (auto simp: SpaceStation_new_fst no_model_validator_Inr dest: SpaceStation_fields_valid)
  have contact: "AlienContact_valid c" if "fst (AlienContact_new kw2 w) = Inr c"
  proof -
    from that obtain t x where "AlienContact_fields t kw2 = Inr x" "validate_contact x = Inr c"
      by (auto simp: AlienContact_new_fst model_validator_after_Inr)
    then show ?thesis
      using AlienContact_fields_valid [of t kw2 x]
      by (auto simp: validate_contact_rules first_failure_Inr AlienContact_valid_def)
  qed
  have member: "CrewMember_valid cm" if "CrewMember_new kw3 = Inr cm"
    using that
    by (auto simp: CrewMember_new_def no_model_validator_Inr dest: CrewMember_fields_valid)
  have mission: "SpaceMission_valid m
    \<and> (\<exists>xs. kw_crew kw4 = Given xs
          \<and> list_all2 member_accepted xs (crew m)
          \<and> list_all2 (\<lambda>x c. x = Instance c \<or> CrewMember_valid c) xs (crew m))"
    if "fst (SpaceMission_new kw4 w) = Inr m"
  proof -
    from that obtain t x where f: "SpaceMission_fields t kw4 = Inr x"
        and r: "validate_mission x = Inr m"
      by (auto simp: SpaceMission_new_fst model_validator_after_Inr)
    from r have m: "m = x" and rules: "list_all (\<lambda>r. r x = None) mission_rules"
      by (simp_all add: validate_mission_rules first_failure_Inr)
    from SpaceMission_fields_valid [OF f] obtain xs where
      xs: "kw_crew kw4 = Given xs" "list_all2 member_accepted xs (crew x)" by blast
    from xs(2) have "list_all2 (\<lambda>x c. x = Instance c \<or> CrewMember_valid c) xs (crew x)"
      by (rule list_all2_mono) (rule member_accepted_valid)
    with xs m rules SpaceMission_fields_valid [OF f] show ?thesis
      by (simp add: SpaceMission_valid_def)
  qed
  from station contact member mission show ?thesis by blast
qed

text \<open>The theorem at the valid inputs of the \<^verbatim>\<open>main\<close> functions, the mission with two of
  its members given as mappings.\<close>

theorem constructed_records_valid_witness:
  "fst (SpaceStation_new station1 (clock_from 0)) = Inr station1_record
 \<and> SpaceStation_valid station1_record
 \<and> fst (AlienContact_new contact1 (clock_from 0)) = Inr contact1_record
 \<and> AlienContact_valid contact1_record
 \<and> CrewMember_new sarah = Inr sarah_record
 \<and> CrewMember_valid sarah_record
 \<and> fst (SpaceMission_new mission_mixed (clock_from 0)) = Inr mission1_record
 \<and> SpaceMission_valid mission1_record
 \<and> kw_crew mission_mixed = Given crew_mixed
 \<and> list_all2 member_accepted crew_mixed (crew mission1_record)"
  using constructed_records_valid
    [where ?kw1.0 = station1 and w = "clock_from 0" and s = station1_record
       and ?kw2.0 = contact1 and c = contact1_record and ?kw3.0 = sarah and cm = sarah_record
       and ?kw4.0 = mission_mixed and m = mission1_record]
  by (simp add: main_constructed mission_mixed_fields)

text \<open>
  C4 as stated fails. The classes set no \<^verbatim>\<open>model_config\<close>, and an assignment to an
  attribute of a constructed record stores the value: \<^verbatim>\<open>crew_size = 155\<close> on the
  station of \<^verbatim>\<open>main\<close>, \<^verbatim>\<open>signal_strength = 11\<close> on its contact, \<^verbatim>\<open>age = 5\<close> on its
  first crew member and \<^verbatim>\<open>duration_days = 0\<close> on its mission, after which the record
  violates a field constraint. The constructor of \<^verbatim>\<open>SpaceMission\<close> then accepts the
  crew with the member of five years, so that a constructed mission holds a member who
  violates a constraint of \<^verbatim>\<open>CrewMember\<close>.
\<close>

theorem assignment_breaks_constraint:
  "fst (SpaceStation_new station1 (clock_from 0)) = Inr station1_record
 \<and> SpaceStation_setattr station1_record (Crew_size 155) =
     Inr (SpaceStation_assign (Crew_size 155) station1_record)
 \<and> \<not> SpaceStation_valid (SpaceStation_assign (Crew_size 155) station1_record)
 \<and> fst (AlienContact_new contact1 (clock_from 0)) = Inr contact1_record
 \<and> AlienContact_setattr contact1_record (Signal_strength (Finite 11)) =
     Inr (AlienContact_assign (Signal_strength (Finite 11)) contact1_record)
 \<and> \<not> AlienContact_valid (AlienContact_assign (Signal_strength (Finite 11)) contact1_record)
 \<and> CrewMember_new sarah = Inr sarah_record
 \<and> CrewMember_setattr sarah_record (Age 5) = Inr (CrewMember_assign (Age 5) sarah_record)
 \<and> \<not> CrewMember_valid (CrewMember_assign (Age 5) sarah_record)
 \<and> fst (SpaceMission_new mission1 (clock_from 0)) = Inr mission1_record
 \<and> SpaceMission_setattr mission1_record (Duration_days 0) =
     Inr (SpaceMission_assign (Duration_days 0) mission1_record)
 \<and> \<not> SpaceMission_valid (SpaceMission_assign (Duration_days 0) mission1_record)
 \<and> fst (SpaceMission_new mission_mutated (clock_from 0)) = Inr mission_mutated_record
 \<and> crew mission_mutated_record ! 0 = CrewMember_assign (Age 5) sarah_record"
  by (intro conjI main_constructed assignments_stored assignments_break
        mission_mutated_constructed mission_mutated_crew)

section \<open>C5: a strong signal needs a message that is not empty\<close>

lemma AlienContact_message:
  "AlienContact_fields t kw = Inr c \<Longrightarrow>
   (kw_message_received kw = Absent \<and> message_received c = None)
     \<or> kw_message_received kw = Given (message_received c)"
  unfolding AlienContact_fields_def Let_def
  by (auto simp: with_default_Inr nullable_str_Inr split: sum.splits arg.splits)

lemma contact_rule4:
  assumes "list_all (\<lambda>r. r c = None) (take 3 contact_rules)" "float_gt (signal_strength c) 7"
  shows "validate_contact c =
     (if truthy (message_received c) then Inr c
      else Inl (ValueError [Lit ''Strong signals (> 7.0) should include received messages'']))"
  using assms by (auto simp: validate_contact_def contact_rules_def split: if_splits)

lemma contact1_eval:
  "list_all (\<lambda>r. r contact1_record = None) (take 3 contact_rules)"
  "float_gt (signal_strength contact1_record) 7"
  "truthy (message_received contact1_record)"
  by code_simp+

lemma contact_empty_message_eval:
  "kw_timestamp contact_empty_message = Absent"
  "kw_message_received contact_empty_message = Given (Some [])"
  "AlienContact_fields (Given 0) contact_empty_message = Inr (contact1_record\<lparr>message_received := Some []\<rparr>)"
  "validate_contact (contact1_record\<lparr>message_received := Some []\<rparr>) =
     Inl (ValueError [Lit ''Strong signals (> 7.0) should include received messages''])"
  by code_simp+

text \<open>
  C5, as amended. For an \<^verbatim>\<open>AlienContact\<close> input that passes the field phase and the
  first three rules, with \<^verbatim>\<open>signal_strength > 7.0\<close>: the constructor succeeds exactly
  when \<^verbatim>\<open>message_received\<close> is truthy, that is given, not \<^verbatim>\<open>None\<close> and not the
  empty string; otherwise it fails with the error of the fourth rule. The field of the
  record is the value that was passed.
\<close>

theorem strong_signal_needs_message:
  "AlienContact_fields (fst (default_factory_now (kw_timestamp kw) w)) kw = Inr c
     \<and> list_all (\<lambda>r. r c = None) (take 3 contact_rules)
     \<and> float_gt (signal_strength c) 7 \<longrightarrow>
   ((\<exists>r. fst (AlienContact_new kw w) = Inr r) \<longleftrightarrow> truthy (message_received c))
   \<and> (\<not> truthy (message_received c) \<longrightarrow>
        fst (AlienContact_new kw w) =
          Inl (ValidationError [LineError [] (Value_error
            [Lit ''Strong signals (> 7.0) should include received messages''])]))
   \<and> ((kw_message_received kw = Absent \<and> message_received c = None)
        \<or> kw_message_received kw = Given (message_received c))"
proof (intro impI; elim conjE)
  assume f: "AlienContact_fields (fst (default_factory_now (kw_timestamp kw) w)) kw = Inr c"
    and r: "list_all (\<lambda>r. r c = None) (take 3 contact_rules)"
    and s: "float_gt (signal_strength c) 7"
  have new: "fst (AlienContact_new kw w) = model_validator_after validate_contact (Inr c)"
    using f by (simp add: AlienContact_new_fst)
  show "((\<exists>r. fst (AlienContact_new kw w) = Inr r) \<longleftrightarrow> truthy (message_received c))
   \<and> (\<not> truthy (message_received c) \<longrightarrow>
        fst (AlienContact_new kw w) =
          Inl (ValidationError [LineError [] (Value_error
            [Lit ''Strong signals (> 7.0) should include received messages''])]))
   \<and> ((kw_message_received kw = Absent \<and> message_received c = None)
        \<or> kw_message_received kw = Given (message_received c))"
    using AlienContact_message [OF f]
    by (simp add: new contact_rule4 [OF r s] model_validator_after_def)
qed


text \<open>The theorem at the first contact of \<^verbatim>\<open>main\<close>, whose message is not empty.\<close>

theorem strong_signal_needs_message_witness:
  "AlienContact_fields (fst (default_factory_now (kw_timestamp contact1) (clock_from 0))) contact1
     = Inr contact1_record
 \<and> list_all (\<lambda>r. r contact1_record = None) (take 3 contact_rules)
 \<and> float_gt (signal_strength contact1_record) 7
 \<and> truthy (message_received contact1_record)
 \<and> (\<exists>r. fst (AlienContact_new contact1 (clock_from 0)) = Inr r)"
proof -
  have h: "AlienContact_fields (fst (default_factory_now (kw_timestamp contact1) (clock_from 0)))
        contact1 = Inr contact1_record
      \<and> list_all (\<lambda>r. r contact1_record = None) (take 3 contact_rules)
      \<and> float_gt (signal_strength contact1_record) 7"
    by (simp add: main_timestamps clock_from_reading contact1_fields contact1_eval)
  with strong_signal_needs_message [of contact1 "clock_from 0" contact1_record]
  have "(\<exists>r. fst (AlienContact_new contact1 (clock_from 0)) = Inr r)
      \<longleftrightarrow> truthy (message_received contact1_record)"
    by blast
  with h show ?thesis
    by (simp add: contact1_eval)
qed

text \<open>
  C5 as stated fails: the empty string is a supplied, non-null message, and the contact
  is rejected by the fourth rule.
\<close>

theorem empty_message_rejected:
  "kw_message_received contact_empty_message = Given (Some [])
 \<and> fst (AlienContact_new contact_empty_message (clock_from 0)) =
     Inl (ValidationError [LineError [] (Value_error
       [Lit ''Strong signals (> 7.0) should include received messages''])])"
  by (simp add: AlienContact_new_fst clock_from_reading contact_empty_message_eval
        model_validator_after_def)



section \<open>C7: a long mission needs half of its crew experienced\<close>

lemma below_half:
  "0 < b \<Longrightarrow> rat_of_nat a / rat_of_nat b < 1 / 2 \<longleftrightarrow> 2 * a < b"
proof -
  assume "0 < b"
  then have "rat_of_nat a / rat_of_nat b < 1 / 2 \<longleftrightarrow> rat_of_nat (2 * a) < rat_of_nat b"
    by (simp add: field_simps)
  then show ?thesis
    by (simp only: of_nat_less_iff)
qed

lemma validate_mission_long:
  assumes "take 1 (mission_id m) = ''M''"
    "list_ex (\<lambda>c. rank c = commander \<or> rank c = captain) (crew m)"
    "365 < duration_days m" "crew m \<noteq> []"
  shows "validate_mission m =
     (if experienced_fraction m < 1 / 2
      then Inl (ValueError
             [Lit ''For long missions (> 365 days) need 50% experienced crew (5+ years)''])
      else if inactive_names m \<noteq> []
      then Inl (ValueError
             [Lit ''All crew members must be active. Inactive members: '',
              ReprStrList (inactive_names m)])
      else Inr m)"
  using assms
  by (auto simp: validate_mission_def Let_def list_ex_iff senior_ranks_def
        experienced_fraction_def inactive_names_def)

lemma SpaceMission_fields_crew:
  "SpaceMission_fields t kw = Inr m \<Longrightarrow> crew m \<noteq> []"
  by (auto dest!: SpaceMission_fields_valid simp: within_length_def)

lemma mission_third_eval:
  "kw_launch_date mission_third = Absent"
  "SpaceMission_fields (Given 0) mission_third = Inr mission_third_record"
  "take 1 (mission_id mission_third_record) = ''M''"
  "list_ex (\<lambda>c. rank c = commander \<or> rank c = captain) (crew mission_third_record)"
  "365 < duration_days mission_third_record"
  by code_simp+

lemma mission_third_fraction: "experienced_fraction mission_third_record = 1 / 3"
  by (simp add: experienced_fraction_def mission_third_record_def sarah_record_def bob_record_def)

lemma mission_half_eval:
  "kw_launch_date mission_half = Absent"
  "SpaceMission_fields (Given 0) mission_half = Inr mission_half_record"
  "take 1 (mission_id mission_half_record) = ''M''"
  "list_ex (\<lambda>c. rank c = commander \<or> rank c = captain) (crew mission_half_record)"
  "365 < duration_days mission_half_record"
  "validate_mission mission_half_record = Inr mission_half_record"
  by code_simp+

lemma mission_half_fraction: "experienced_fraction mission_half_record = 1 / 2"
  by (simp add: experienced_fraction_def mission_half_record_def sarah_record_def bob_record_def)

text \<open>
  C7. For a \<^verbatim>\<open>SpaceMission\<close> input that passes the field phase, with an identifier
  that starts with M, a commander or captain in the crew and more than 365 days: the
  constructor fails with the error of the third rule exactly when the fraction of the
  members with more than four years of experience is below one half, that is when twice
  their number is less than the size of the crew; a fraction of exactly one half does
  not fail the rule.
\<close>

theorem long_mission_needs_half_experienced:
  "SpaceMission_fields (fst (default_factory_now (kw_launch_date kw) w)) kw = Inr m
     \<and> take 1 (mission_id m) = ''M''
     \<and> list_ex (\<lambda>c. rank c = commander \<or> rank c = captain) (crew m)
     \<and> 365 < duration_days m \<longrightarrow>
   (fst (SpaceMission_new kw w) =
      Inl (ValidationError [LineError [] (Value_error
        [Lit ''For long missions (> 365 days) need 50% experienced crew (5+ years)''])])
    \<longleftrightarrow> experienced_fraction m < 1 / 2)
   \<and> (experienced_fraction m < 1 / 2
        \<longleftrightarrow> 2 * length (filter (\<lambda>c. 4 < years_experience c) (crew m)) < length (crew m))
   \<and> (experienced_fraction m = 1 / 2 \<longrightarrow>
        fst (SpaceMission_new kw w) \<noteq>
          Inl (ValidationError [LineError [] (Value_error
            [Lit ''For long missions (> 365 days) need 50% experienced crew (5+ years)''])]))"
proof (intro impI; elim conjE)
  assume f: "SpaceMission_fields (fst (default_factory_now (kw_launch_date kw) w)) kw = Inr m"
    and r1: "take 1 (mission_id m) = ''M''"
    and r2: "list_ex (\<lambda>c. rank c = commander \<or> rank c = captain) (crew m)"
    and d: "365 < duration_days m"
  have ne: "crew m \<noteq> []"
    using f by (rule SpaceMission_fields_crew)
  have new: "fst (SpaceMission_new kw w) = model_validator_after validate_mission (Inr m)"
    using f by (simp add: SpaceMission_new_fst)
  have a: "fst (SpaceMission_new kw w) =
      Inl (ValidationError [LineError [] (Value_error
        [Lit ''For long missions (> 365 days) need 50% experienced crew (5+ years)''])])
    \<longleftrightarrow> experienced_fraction m < 1 / 2"
    by (simp add: new validate_mission_long [OF r1 r2 d ne] model_validator_after_def)
  have b: "experienced_fraction m < 1 / 2
        \<longleftrightarrow> 2 * length (filter (\<lambda>c. 4 < years_experience c) (crew m)) < length (crew m)"
    unfolding experienced_fraction_def using ne by (intro below_half) simp
  from a b show "(fst (SpaceMission_new kw w) =
      Inl (ValidationError [LineError [] (Value_error
        [Lit ''For long missions (> 365 days) need 50% experienced crew (5+ years)''])])
    \<longleftrightarrow> experienced_fraction m < 1 / 2)
   \<and> (experienced_fraction m < 1 / 2
        \<longleftrightarrow> 2 * length (filter (\<lambda>c. 4 < years_experience c) (crew m)) < length (crew m))
   \<and> (experienced_fraction m = 1 / 2 \<longrightarrow>
        fst (SpaceMission_new kw w) \<noteq>
          Inl (ValidationError [LineError [] (Value_error
            [Lit ''For long missions (> 365 days) need 50% experienced crew (5+ years)''])]))"
    by (metis less_irrefl)
qed


text \<open>The theorem at a crew with one experienced member of three, which fails, and the
  outcome for one of two, which passes.\<close>

theorem long_mission_needs_half_experienced_witness:
  "SpaceMission_fields (fst (default_factory_now (kw_launch_date mission_third) (clock_from 0)))
      mission_third = Inr mission_third_record
 \<and> take 1 (mission_id mission_third_record) = ''M''
 \<and> list_ex (\<lambda>c. rank c = commander \<or> rank c = captain) (crew mission_third_record)
 \<and> 365 < duration_days mission_third_record
 \<and> experienced_fraction mission_third_record = 1 / 3
 \<and> fst (SpaceMission_new mission_third (clock_from 0)) =
      Inl (ValidationError [LineError [] (Value_error
        [Lit ''For long missions (> 365 days) need 50% experienced crew (5+ years)''])])
 \<and> SpaceMission_fields (fst (default_factory_now (kw_launch_date mission_half) (clock_from 0)))
      mission_half = Inr mission_half_record
 \<and> experienced_fraction mission_half_record = 1 / 2
 \<and> fst (SpaceMission_new mission_half (clock_from 0)) = Inr mission_half_record"
proof -
  have third: "SpaceMission_fields
        (fst (default_factory_now (kw_launch_date mission_third) (clock_from 0)))
        mission_third = Inr mission_third_record"
    by (simp add: clock_from_reading mission_third_eval)
  have half: "SpaceMission_fields
        (fst (default_factory_now (kw_launch_date mission_half) (clock_from 0)))
        mission_half = Inr mission_half_record"
    by (simp add: clock_from_reading mission_half_eval)
  have "fst (SpaceMission_new mission_third (clock_from 0)) =
      Inl (ValidationError [LineError [] (Value_error
        [Lit ''For long missions (> 365 days) need 50% experienced crew (5+ years)''])])"
    using long_mission_needs_half_experienced [of mission_third "clock_from 0" mission_third_record]
      third mission_third_eval
    by (simp add: mission_third_fraction)
  moreover have "fst (SpaceMission_new mission_half (clock_from 0)) = Inr mission_half_record"
    by (simp add: SpaceMission_new_fst clock_from_reading mission_half_eval
          model_validator_after_def)
  ultimately show ?thesis
    using third half mission_third_eval
    by (simp add: mission_third_fraction mission_half_fraction)
qed



section \<open>C8: the error of the fourth mission rule names every inactive member\<close>

lemma mission_rule4:
  assumes "list_all (\<lambda>r. r m = None) (take 3 mission_rules)"
  shows "validate_mission m =
     (if list_ex (\<lambda>c. \<not> is_active c) (crew m)
      then Inl (ValueError
             [Lit ''All crew members must be active. Inactive members: '',
              ReprStrList (inactive_names m)])
      else Inr m)"
  using assms
  by (simp add: validate_mission_rules mission_rules_def list_ex_iff)

lemma mission_inactive_eval:
  "kw_launch_date mission_inactive = Absent"
  "SpaceMission_fields (Given 0) mission_inactive = Inr mission_inactive_record"
  "list_all (\<lambda>r. r mission_inactive_record = None) (take 3 mission_rules)"
  "list_ex (\<lambda>c. \<not> is_active c) (crew mission_inactive_record)"
  "map name (filter (\<lambda>c. \<not> is_active c) (crew mission_inactive_record)) =
     [''John Smith'', ''Alice Johnson'']"
  by code_simp+

text \<open>
  C8. For a \<^verbatim>\<open>SpaceMission\<close> input that passes the field phase and the first three
  rules: the constructor fails exactly when some member of the crew is not active; the
  error is then the single error of the fourth rule, whose message carries the names of
  all members that are not active, in the order of the crew, so that the name of every
  inactive member is in it; otherwise the constructor returns the record.
\<close>

theorem inactive_members_all_named:
  "SpaceMission_fields (fst (default_factory_now (kw_launch_date kw) w)) kw = Inr m
     \<and> list_all (\<lambda>r. r m = None) (take 3 mission_rules) \<longrightarrow>
   ((\<exists>e. fst (SpaceMission_new kw w) = Inl e) \<longleftrightarrow> list_ex (\<lambda>c. \<not> is_active c) (crew m))
   \<and> (list_ex (\<lambda>c. \<not> is_active c) (crew m) \<longrightarrow>
        fst (SpaceMission_new kw w) =
          Inl (ValidationError [LineError [] (Value_error
            [Lit ''All crew members must be active. Inactive members: '',
             ReprStrList (map name (filter (\<lambda>c. \<not> is_active c) (crew m)))])]))
   \<and> (\<forall>c \<in> set (crew m). \<not> is_active c \<longrightarrow>
        name c \<in> set (map name (filter (\<lambda>c. \<not> is_active c) (crew m))))
   \<and> (\<not> list_ex (\<lambda>c. \<not> is_active c) (crew m) \<longrightarrow> fst (SpaceMission_new kw w) = Inr m)"
proof (intro impI; elim conjE)
  assume f: "SpaceMission_fields (fst (default_factory_now (kw_launch_date kw) w)) kw = Inr m"
    and r: "list_all (\<lambda>r. r m = None) (take 3 mission_rules)"
  have new: "fst (SpaceMission_new kw w) = model_validator_after validate_mission (Inr m)"
    using f by (simp add: SpaceMission_new_fst)
  show "((\<exists>e. fst (SpaceMission_new kw w) = Inl e) \<longleftrightarrow> list_ex (\<lambda>c. \<not> is_active c) (crew m))
   \<and> (list_ex (\<lambda>c. \<not> is_active c) (crew m) \<longrightarrow>
        fst (SpaceMission_new kw w) =
          Inl (ValidationError [LineError [] (Value_error
            [Lit ''All crew members must be active. Inactive members: '',
             ReprStrList (map name (filter (\<lambda>c. \<not> is_active c) (crew m)))])]))
   \<and> (\<forall>c \<in> set (crew m). \<not> is_active c \<longrightarrow>
        name c \<in> set (map name (filter (\<lambda>c. \<not> is_active c) (crew m))))
   \<and> (\<not> list_ex (\<lambda>c. \<not> is_active c) (crew m) \<longrightarrow> fst (SpaceMission_new kw w) = Inr m)"
    by (simp add: new mission_rule4 [OF r] model_validator_after_def inactive_names_def)
qed


text \<open>The theorem at a crew of three with two inactive members: both are named.\<close>

theorem inactive_members_all_named_witness:
  "SpaceMission_fields (fst (default_factory_now (kw_launch_date mission_inactive) (clock_from 0)))
      mission_inactive = Inr mission_inactive_record
 \<and> list_all (\<lambda>r. r mission_inactive_record = None) (take 3 mission_rules)
 \<and> list_ex (\<lambda>c. \<not> is_active c) (crew mission_inactive_record)
 \<and> fst (SpaceMission_new mission_inactive (clock_from 0)) =
      Inl (ValidationError [LineError [] (Value_error
        [Lit ''All crew members must be active. Inactive members: '',
         ReprStrList [''John Smith'', ''Alice Johnson'']])])"
proof -
  have h: "SpaceMission_fields
        (fst (default_factory_now (kw_launch_date mission_inactive) (clock_from 0)))
        mission_inactive = Inr mission_inactive_record
      \<and> list_all (\<lambda>r. r mission_inactive_record = None) (take 3 mission_rules)"
    by (simp add: clock_from_reading mission_inactive_eval)
  with inactive_members_all_named [of mission_inactive "clock_from 0" mission_inactive_record]
  have "list_ex (\<lambda>c. \<not> is_active c) (crew mission_inactive_record) \<longrightarrow>
      fst (SpaceMission_new mission_inactive (clock_from 0)) =
        Inl (ValidationError [LineError [] (Value_error
          [Lit ''All crew members must be active. Inactive members: '',
           ReprStrList (map name (filter (\<lambda>c. \<not> is_active c) (crew mission_inactive_record)))])])"
    by blast
  with h show ?thesis
    by (simp add: mission_inactive_eval)
qed



section \<open>C9: the bounds of every field are inclusive\<close>

lemma field_errors_append: "field_errors n (a @ b) = field_errors n a @ field_errors n b"
  by (simp add: field_errors_def)

lemma field_errors_required:
  "field_errors n (errs (required m v x)) = (if n = m then errs (required m v x) else [])"
  by (auto simp: field_errors_def errs_required with_outer_location_def filter_empty_conv
        split: arg.splits intro!: filter_True)

lemma field_errors_with_default:
  "field_errors n (errs (with_default m d v x)) = (if n = m then errs (with_default m d v x) else [])"
  by (auto simp: field_errors_def errs_with_default with_outer_location_def filter_empty_conv
        split: arg.splits intro!: filter_True)

lemma errs_str_Nil:
  "errs (required m (str_validator (Some lo) (Some hi)) (Given s)) = []
     \<longleftrightarrow> lo \<le> length s \<and> length s \<le> hi"
  by (auto simp: errs_required str_validator_def)

lemma errs_int_Nil:
  "errs (required m (int_validator lo hi) (Given v)) = [] \<longleftrightarrow> lo \<le> v \<and> v \<le> hi"
  by (auto simp: errs_required int_validator_def)

lemma errs_float_Nil:
  "errs (required m (float_validator lo hi) (Given (Finite x))) = [] \<longleftrightarrow> lo \<le> x \<and> x \<le> hi"
  by (auto simp: errs_required float_validator_def)

lemma errs_nullable_Nil:
  "errs (with_default m d (nullable (str_validator None (Some hi))) (Given (Some s))) = []
     \<longleftrightarrow> length s \<le> hi"
  by (auto simp: errs_with_default nullable_def str_validator_def)

lemmas field_errors_simps =
  field_errors_append field_errors_required field_errors_with_default
  errs_str_Nil errs_int_Nil errs_float_Nil errs_nullable_Nil

lemma SpaceStation_bounds:
  "(field_errors ''station_id'' (errs (SpaceStation_fields t (kw\<lparr>kw_station_id := Given s\<rparr>))) = []
      \<longleftrightarrow> 3 \<le> length s \<and> length s \<le> 10)
 \<and> (field_errors ''name'' (errs (SpaceStation_fields t (kw\<lparr>SpaceStation_kwargs.kw_name := Given s\<rparr>))) = []
      \<longleftrightarrow> 1 \<le> length s \<and> length s \<le> 50)
 \<and> (field_errors ''crew_size'' (errs (SpaceStation_fields t (kw\<lparr>kw_crew_size := Given v\<rparr>))) = []
      \<longleftrightarrow> 1 \<le> v \<and> v \<le> 20)
 \<and> (field_errors ''power_level'' (errs (SpaceStation_fields t (kw\<lparr>kw_power_level := Given (Finite x)\<rparr>))) = []
      \<longleftrightarrow> 0 \<le> x \<and> x \<le> 100)
 \<and> (field_errors ''oxygen_level'' (errs (SpaceStation_fields t (kw\<lparr>kw_oxygen_level := Given (Finite x)\<rparr>))) = []
      \<longleftrightarrow> 0 \<le> x \<and> x \<le> 100)
 \<and> (field_errors ''notes'' (errs (SpaceStation_fields t (kw\<lparr>kw_notes := Given (Some s)\<rparr>))) = []
      \<longleftrightarrow> length s \<le> 200)"
  by (simp add: SpaceStation_fields_errs field_errors_simps del: One_nat_def)


lemma AlienContact_bounds:
  "(field_errors ''contact_id'' (errs (AlienContact_fields t (kw\<lparr>kw_contact_id := Given s\<rparr>))) = []
      \<longleftrightarrow> 5 \<le> length s \<and> length s \<le> 15)
 \<and> (field_errors ''location'' (errs (AlienContact_fields t (kw\<lparr>kw_location := Given s\<rparr>))) = []
      \<longleftrightarrow> 3 \<le> length s \<and> length s \<le> 100)
 \<and> (field_errors ''signal_strength'' (errs (AlienContact_fields t (kw\<lparr>kw_signal_strength := Given (Finite x)\<rparr>))) = []
      \<longleftrightarrow> 0 \<le> x \<and> x \<le> 10)
 \<and> (field_errors ''duration_minutes'' (errs (AlienContact_fields t (kw\<lparr>kw_duration_minutes := Given v\<rparr>))) = []
      \<longleftrightarrow> 1 \<le> v \<and> v \<le> 1440)
 \<and> (field_errors ''witness_count'' (errs (AlienContact_fields t (kw\<lparr>kw_witness_count := Given v\<rparr>))) = []
      \<longleftrightarrow> 1 \<le> v \<and> v \<le> 100)
 \<and> (field_errors ''message_received'' (errs (AlienContact_fields t (kw\<lparr>kw_message_received := Given (Some s)\<rparr>))) = []
      \<longleftrightarrow> length s \<le> 500)"
  by (simp add: AlienContact_fields_errs field_errors_simps del: One_nat_def)

lemma CrewMember_bounds:
  "(field_errors ''member_id'' (errs (CrewMember_fields (kw\<lparr>kw_member_id := Given s\<rparr>))) = []
      \<longleftrightarrow> 3 \<le> length s \<and> length s \<le> 10)
 \<and> (field_errors ''name'' (errs (CrewMember_fields (kw\<lparr>kw_name := Given s\<rparr>))) = []
      \<longleftrightarrow> 2 \<le> length s \<and> length s \<le> 50)
 \<and> (field_errors ''age'' (errs (CrewMember_fields (kw\<lparr>kw_age := Given v\<rparr>))) = []
      \<longleftrightarrow> 18 \<le> v \<and> v \<le> 80)
 \<and> (field_errors ''specialization'' (errs (CrewMember_fields (kw\<lparr>kw_specialization := Given s\<rparr>))) = []
      \<longleftrightarrow> 3 \<le> length s \<and> length s \<le> 30)
 \<and> (field_errors ''years_experience'' (errs (CrewMember_fields (kw\<lparr>kw_years_experience := Given v\<rparr>))) = []
      \<longleftrightarrow> 0 \<le> v \<and> v \<le> 50)"
  by (simp add: CrewMember_fields_errs field_errors_simps del: One_nat_def)

lemma item_errors_Nil:
  "item_errors v i xs = [] \<longleftrightarrow> list_all (\<lambda>x. errs (v x) = []) xs"
  by (induction xs arbitrary: i) auto

lemma errs_crew_Nil:
  "list_all (\<lambda>x. errs (CrewMember_validator x) = []) xs \<Longrightarrow>
   errs (required m (list_validator lo hi CrewMember_validator) (Given xs)) = []
     \<longleftrightarrow> lo \<le> length xs \<and> length xs \<le> hi"
  by (auto simp: errs_required list_validator_eq item_errors_Nil)

lemma SpaceMission_bounds:
  "(field_errors ''mission_id'' (errs (SpaceMission_fields t (kw\<lparr>kw_mission_id := Given s\<rparr>))) = []
      \<longleftrightarrow> 5 \<le> length s \<and> length s \<le> 15)
 \<and> (field_errors ''mission_name'' (errs (SpaceMission_fields t (kw\<lparr>kw_mission_name := Given s\<rparr>))) = []
      \<longleftrightarrow> 3 \<le> length s \<and> length s \<le> 100)
 \<and> (field_errors ''destination'' (errs (SpaceMission_fields t (kw\<lparr>kw_destination := Given s\<rparr>))) = []
      \<longleftrightarrow> 3 \<le> length s \<and> length s \<le> 50)
 \<and> (field_errors ''duration_days'' (errs (SpaceMission_fields t (kw\<lparr>kw_duration_days := Given v\<rparr>))) = []
      \<longleftrightarrow> 1 \<le> v \<and> v \<le> 3650)
 \<and> (field_errors ''budget_millions'' (errs (SpaceMission_fields t (kw\<lparr>kw_budget_millions := Given (Finite x)\<rparr>))) = []
      \<longleftrightarrow> 1 \<le> x \<and> x \<le> 10000)
 \<and> (list_all (\<lambda>x. errs (CrewMember_validator x) = []) xs \<longrightarrow>
      (field_errors ''crew'' (errs (SpaceMission_fields t (kw\<lparr>kw_crew := Given xs\<rparr>))) = []
        \<longleftrightarrow> 1 \<le> length xs \<and> length xs \<le> 12))"
  by (simp add: SpaceMission_fields_errs field_errors_simps errs_crew_Nil del: One_nat_def)

lemma sarah_crews:
  "list_all (\<lambda>x. errs (CrewMember_validator x) = []) (replicate 12 (Dict sarah))"
  "list_all (\<lambda>x. errs (CrewMember_validator x) = []) (replicate 13 (Dict sarah))"
  by (simp_all add: list_all_iff sarah_fields)

text \<open>
  C9. For every constrained field of \<^verbatim>\<open>SpaceStation\<close>, \<^verbatim>\<open>AlienContact\<close>,
  \<^verbatim>\<open>CrewMember\<close> and \<^verbatim>\<open>SpaceMission\<close>, whatever the other fields of the input are: the
  field phase reports no error on the field exactly when the value, or its length, lies
  between the declared bounds, both bounds included. So a value equal to a bound passes
  and any value beyond it fails. For \<^verbatim>\<open>crew\<close> this is said of lists of valid members.
\<close>

theorem bounds_are_inclusive:
  "((field_errors ''station_id'' (errs (SpaceStation_fields t (kw1\<lparr>kw_station_id := Given s\<rparr>))) = []
      \<longleftrightarrow> 3 \<le> length s \<and> length s \<le> 10)
 \<and> (field_errors ''name'' (errs (SpaceStation_fields t (kw1\<lparr>SpaceStation_kwargs.kw_name := Given s\<rparr>))) = []
      \<longleftrightarrow> 1 \<le> length s \<and> length s \<le> 50)
 \<and> (field_errors ''crew_size'' (errs (SpaceStation_fields t (kw1\<lparr>kw_crew_size := Given v\<rparr>))) = []
      \<longleftrightarrow> 1 \<le> v \<and> v \<le> 20)
 \<and> (field_errors ''power_level'' (errs (SpaceStation_fields t (kw1\<lparr>kw_power_level := Given (Finite x)\<rparr>))) = []
      \<longleftrightarrow> 0 \<le> x \<and> x \<le> 100)
 \<and> (field_errors ''oxygen_level'' (errs (SpaceStation_fields t (kw1\<lparr>kw_oxygen_level := Given (Finite x)\<rparr>))) = []
      \<longleftrightarrow> 0 \<le> x \<and> x \<le> 100)
 \<and> (field_errors ''notes'' (errs (SpaceStation_fields t (kw1\<lparr>kw_notes := Given (Some s)\<rparr>))) = []
      \<longleftrightarrow> length s \<le> 200))
 \<and> ((field_errors ''contact_id'' (errs (AlienContact_fields t (kw2\<lparr>kw_contact_id := Given s\<rparr>))) = []
      \<longleftrightarrow> 5 \<le> length s \<and> length s \<le> 15)
 \<and> (field_errors ''location'' (errs (AlienContact_fields t (kw2\<lparr>kw_location := Given s\<rparr>))) = []
      \<longleftrightarrow> 3 \<le> length s \<and> length s \<le> 100)
 \<and> (field_errors ''signal_strength'' (errs (AlienContact_fields t (kw2\<lparr>kw_signal_strength := Given (Finite x)\<rparr>))) = []
      \<longleftrightarrow> 0 \<le> x \<and> x \<le> 10)
 \<and> (field_errors ''duration_minutes'' (errs (AlienContact_fields t (kw2\<lparr>kw_duration_minutes := Given v\<rparr>))) = []
      \<longleftrightarrow> 1 \<le> v \<and> v \<le> 1440)
 \<and> (field_errors ''witness_count'' (errs (AlienContact_fields t (kw2\<lparr>kw_witness_count := Given v\<rparr>))) = []
      \<longleftrightarrow> 1 \<le> v \<and> v \<le> 100)
 \<and> (field_errors ''message_received'' (errs (AlienContact_fields t (kw2\<lparr>kw_message_received := Given (Some s)\<rparr>))) = []
      \<longleftrightarrow> length s \<le> 500))
 \<and> ((field_errors ''member_id'' (errs (CrewMember_fields (kw3\<lparr>kw_member_id := Given s\<rparr>))) = []
      \<longleftrightarrow> 3 \<le> length s \<and> length s \<le> 10)
 \<and> (field_errors ''name'' (errs (CrewMember_fields (kw3\<lparr>kw_name := Given s\<rparr>))) = []
      \<longleftrightarrow> 2 \<le> length s \<and> length s \<le> 50)
 \<and> (field_errors ''age'' (errs (CrewMember_fields (kw3\<lparr>kw_age := Given v\<rparr>))) = []
      \<longleftrightarrow> 18 \<le> v \<and> v \<le> 80)
 \<and> (field_errors ''specialization'' (errs (CrewMember_fields (kw3\<lparr>kw_specialization := Given s\<rparr>))) = []
      \<longleftrightarrow> 3 \<le> length s \<and> length s \<le> 30)
 \<and> (field_errors ''years_experience'' (errs (CrewMember_fields (kw3\<lparr>kw_years_experience := Given v\<rparr>))) = []
      \<longleftrightarrow> 0 \<le> v \<and> v \<le> 50))
 \<and> ((field_errors ''mission_id'' (errs (SpaceMission_fields t (kw4\<lparr>kw_mission_id := Given s\<rparr>))) = []
      \<longleftrightarrow> 5 \<le> length s \<and> length s \<le> 15)
 \<and> (field_errors ''mission_name'' (errs (SpaceMission_fields t (kw4\<lparr>kw_mission_name := Given s\<rparr>))) = []
      \<longleftrightarrow> 3 \<le> length s \<and> length s \<le> 100)
 \<and> (field_errors ''destination'' (errs (SpaceMission_fields t (kw4\<lparr>kw_destination := Given s\<rparr>))) = []
      \<longleftrightarrow> 3 \<le> length s \<and> length s \<le> 50)
 \<and> (field_errors ''duration_days'' (errs (SpaceMission_fields t (kw4\<lparr>kw_duration_days := Given v\<rparr>))) = []
      \<longleftrightarrow> 1 \<le> v \<and> v \<le> 3650)
 \<and> (field_errors ''budget_millions'' (errs (SpaceMission_fields t (kw4\<lparr>kw_budget_millions := Given (Finite x)\<rparr>))) = []
      \<longleftrightarrow> 1 \<le> x \<and> x \<le> 10000)
 \<and> (list_all (\<lambda>x. errs (CrewMember_validator x) = []) xs \<longrightarrow>
      (field_errors ''crew'' (errs (SpaceMission_fields t (kw4\<lparr>kw_crew := Given xs\<rparr>))) = []
        \<longleftrightarrow> 1 \<le> length xs \<and> length xs \<le> 12)))"
  by (rule conjI [OF SpaceStation_bounds
        conjI [OF AlienContact_bounds conjI [OF CrewMember_bounds SpaceMission_bounds]]])



text \<open>The theorem at the values named by the specification: a crew size of 20 and 21, a
  signal strength of 10.0, station identifiers of 3, 10, 2 and 11 characters, and crews
  of 12 and 13 members.\<close>

theorem bounds_are_inclusive_witness:
  "field_errors ''crew_size'' (errs (SpaceStation_fields (Given 0) (station1\<lparr>kw_crew_size := Given 20\<rparr>))) = []
 \<and> field_errors ''crew_size'' (errs (SpaceStation_fields (Given 0) (station1\<lparr>kw_crew_size := Given 21\<rparr>))) \<noteq> []
 \<and> field_errors ''signal_strength''
      (errs (AlienContact_fields (Given 0) (contact1\<lparr>kw_signal_strength := Given (Finite 10)\<rparr>))) = []
 \<and> field_errors ''station_id'' (errs (SpaceStation_fields (Given 0) (station1\<lparr>kw_station_id := Given ''ISS''\<rparr>))) = []
 \<and> field_errors ''station_id''
      (errs (SpaceStation_fields (Given 0) (station1\<lparr>kw_station_id := Given ''ISS0010000''\<rparr>))) = []
 \<and> field_errors ''station_id'' (errs (SpaceStation_fields (Given 0) (station1\<lparr>kw_station_id := Given ''IS''\<rparr>))) \<noteq> []
 \<and> field_errors ''station_id''
      (errs (SpaceStation_fields (Given 0) (station1\<lparr>kw_station_id := Given ''ISS00100000''\<rparr>))) \<noteq> []
 \<and> list_all (\<lambda>x. errs (CrewMember_validator x) = []) (replicate 12 (Dict sarah))
 \<and> field_errors ''crew'' (errs (SpaceMission_fields (Given 0) (mission1\<lparr>kw_crew := Given (replicate 12 (Dict sarah))\<rparr>))) = []
 \<and> list_all (\<lambda>x. errs (CrewMember_validator x) = []) (replicate 13 (Dict sarah))
 \<and> field_errors ''crew'' (errs (SpaceMission_fields (Given 0) (mission1\<lparr>kw_crew := Given (replicate 13 (Dict sarah))\<rparr>))) \<noteq> []"
  using
    bounds_are_inclusive [where t = "Given 0" and ?kw1.0 = station1 and ?kw2.0 = contact1 and ?kw3.0 = sarah
      and ?kw4.0 = mission1 and s = "''ISS''" and v = 20 and x = 10 and xs = "replicate 12 (Dict sarah)"]
    bounds_are_inclusive [where t = "Given 0" and ?kw1.0 = station1 and ?kw2.0 = contact1 and ?kw3.0 = sarah
      and ?kw4.0 = mission1 and s = "''IS''" and v = 21 and x = 10 and xs = "replicate 13 (Dict sarah)"]
    bounds_are_inclusive [where t = "Given 0" and ?kw1.0 = station1 and ?kw2.0 = contact1 and ?kw3.0 = sarah
      and ?kw4.0 = mission1 and s = "''ISS0010000''" and v = 20 and x = 10 and xs = "replicate 12 (Dict sarah)"]
    bounds_are_inclusive [where t = "Given 0" and ?kw1.0 = station1 and ?kw2.0 = contact1 and ?kw3.0 = sarah
      and ?kw4.0 = mission1 and s = "''ISS00100000''" and v = 20 and x = 10 and xs = "replicate 12 (Dict sarah)"]
    sarah_crews
  by simp



section \<open>C10: the third mission rule never divides by zero\<close>

lemma validate_mission_no_division_error: "validate_mission m \<noteq> Inl ZeroDivisionError"
  by (auto simp: validate_mission_def Let_def split: if_splits)

lemma empty_crew_too_short:
  assumes "kw_crew kw = Given []"
  shows "field_errors ''crew'' (errs (SpaceMission_fields t kw)) = [LineError [Key ''crew''] Too_short]"
proof -
  have "errs (required ''crew'' (list_validator 1 12 CrewMember_validator) (kw_crew kw)) =
      [LineError [Key ''crew''] Too_short]"
    using assms by (simp add: errs_required list_validator_eq with_outer_location_def)
  moreover have "field_errors ''crew'' (errs (SpaceMission_fields t kw)) =
      errs (required ''crew'' (list_validator 1 12 CrewMember_validator) (kw_crew kw))"
    by (simp add: SpaceMission_fields_errs field_errors_append field_errors_required
          field_errors_with_default del: One_nat_def)
  ultimately show ?thesis
    by simp
qed

lemma mission1_crew_length: "length (crew mission1_record) = 3"
  by code_simp

text \<open>
  C10. The constructor of \<^verbatim>\<open>SpaceMission\<close> never ends in \<^verbatim>\<open>ZeroDivisionError\<close>. A
  mission that passes the field phase has between 1 and 12 crew members, and an input
  with an empty crew fails in the field phase, with the error \<open>Too_short\<close> on
  \<^verbatim>\<open>crew\<close>, so \<^verbatim>\<open>validate_mission\<close> does not run on it. Moreover
  \<^verbatim>\<open>validate_mission\<close> itself does not reach the division on any record with an
  empty crew, since its second rule fails first.
\<close>

theorem division_never_by_zero:
  "fst (SpaceMission_new kw w) \<noteq> Inl ZeroDivisionError
 \<and> validate_mission m' \<noteq> Inl ZeroDivisionError
 \<and> (SpaceMission_fields t kw = Inr m \<longrightarrow> 1 \<le> length (crew m) \<and> length (crew m) \<le> 12)
 \<and> (kw_crew kw' = Given [] \<longrightarrow>
      (\<exists>es. fst (SpaceMission_new kw' w) = Inl (ValidationError es)
         \<and> field_errors ''crew'' es = [LineError [Key ''crew''] Too_short]))"
proof (intro conjI impI)
  let ?r = "SpaceMission_fields (fst (default_factory_now (kw_launch_date kw) w)) kw"
  show "fst (SpaceMission_new kw w) \<noteq> Inl ZeroDivisionError"
  proof (cases ?r)
    case (Inl es)
    then show ?thesis
      by (simp add: SpaceMission_new_fst model_validator_after_def)
  next
    case (Inr x)
    then show ?thesis
      using validate_mission_no_division_error [of x]
      by (auto simp: SpaceMission_new_fst model_validator_after_def
            split: sum.splits exn.splits)
  qed
next
  show "validate_mission m' \<noteq> Inl ZeroDivisionError"
    by (rule validate_mission_no_division_error)
next
  assume "SpaceMission_fields t kw = Inr m"
  then have "within_length 1 12 (length (crew m))"
    by (auto dest: SpaceMission_fields_valid)
  then show "1 \<le> length (crew m)" and "length (crew m) \<le> 12"
    by (simp_all add: within_length_def)
next
  let ?r = "SpaceMission_fields (fst (default_factory_now (kw_launch_date kw') w)) kw'"
  assume "kw_crew kw' = Given []"
  then have fe: "field_errors ''crew'' (errs ?r) = [LineError [Key ''crew''] Too_short]"
    by (rule empty_crew_too_short)
  then have "errs ?r \<noteq> []"
    by (auto simp: field_errors_def)
  then have "model_validator_after validate_mission ?r = Inl (ValidationError (errs ?r))"
    by (rule failed_fields)
  with fe show "\<exists>es. fst (SpaceMission_new kw' w) = Inl (ValidationError es)
         \<and> field_errors ''crew'' es = [LineError [Key ''crew''] Too_short]"
    by (simp add: SpaceMission_new_fst)
qed


text \<open>The theorem at the first mission of \<^verbatim>\<open>main\<close> and at the same mission with an
  empty crew.\<close>

theorem division_never_by_zero_witness:
  "SpaceMission_fields (Given 0) mission1 = Inr mission1_record
 \<and> 1 \<le> length (crew mission1_record) \<and> length (crew mission1_record) \<le> 12
 \<and> kw_crew (mission1\<lparr>kw_crew := Given []\<rparr>) = Given []
 \<and> (\<exists>es. fst (SpaceMission_new (mission1\<lparr>kw_crew := Given []\<rparr>) (clock_from 0)) =
        Inl (ValidationError es)
      \<and> field_errors ''crew'' es = [LineError [Key ''crew''] Too_short])"
  using division_never_by_zero
    [where kw = mission1 and t = "Given 0" and m = mission1_record
       and kw' = "mission1\<lparr>kw_crew := Given []\<rparr>" and w = "clock_from 0"]
  by (simp add: mission1_fields)

end
